theory Spec2Isabelle
  imports Main "HOL-Library.Sublist"
begin

section \<open>The scaffolder of react-native-maker\<close>

text \<open>
  A shallow embedding of \<^verbatim>\<open>scaffolder-script.js\<close>: the class
  \<^verbatim>\<open>ReactNativeProjectScaffolder\<close>, the filesystem and the console it acts on, the
  operator who answers its prompts, and the TypeScript that it generates.
\<close>

subsection \<open>Structured documents\<close>

text \<open>
  The value handed to \<^verbatim>\<open>fs.writeJsonSync\<close>. An object keeps its properties in the
  order of the literal; the literals of the source repeat no key.
\<close>

datatype json = JString string | JArray "json list" | JObject "(string \<times> json) list"

fun get :: "json \<Rightarrow> string \<Rightarrow> json option" where
  "get (JObject ps) k = map_of ps k"
| "get _ k = None"

fun keys :: "json \<Rightarrow> string list" where
  "keys (JObject ps) = remdups (map fst ps)"
| "keys _ = []"

fun single_element_list :: "json \<Rightarrow> bool" where
  "single_element_list (JArray [v]) = True"
| "single_element_list _ = False"

text \<open>The object literal \<^verbatim>\<open>defaultConfig\<close> of \<^verbatim>\<open>createTsConfig\<close> (lines 441-465).\<close>

definition defaultConfig :: json where
  "defaultConfig = JObject
    [(''extends'', JString ''@react-native/typescript-config/tsconfig.json''),
     (''compilerOptions'', JObject
       [(''typeRoots'', JArray [JString ''node_modules/@types'', JString ''src/types'']),
        (''types'', JArray [JString ''jest'']),
        (''baseUrl'', JString ''./src''),
        (''paths'', JObject
          [(''@assets/*'', JArray [JString ''assets/*'']),
           (''@features/*'', JArray [JString ''features/*'']),
           (''@navigation/*'', JArray [JString ''navigation/*'']),
           (''@components/*'', JArray [JString ''components/*'']),
           (''@state/*'', JArray [JString ''state/*'']),
           (''@store/*'', JArray [JString ''store/*'']),
           (''@service/*'', JArray [JString ''service/*'']),
           (''@styles/*'', JArray [JString ''styles/*'']),
           (''@utils/*'', JArray [JString ''utils/*'']),
           (''@i18n/*'', JArray [JString ''i18n/*'']),
           (''@theme/*'', JArray [JString ''theme/*'']),
           (''@types/*'', JArray [JString ''types/*'']),
           (''@constants/*'', JArray [JString ''constants/*'']),
           (''@context/*'', JArray [JString ''context/*'']),
           (''@hooks/*'', JArray [JString ''hooks/*''])])])]"

text \<open>\<^verbatim>\<open>defaultConfig.compilerOptions.paths\<close> and \<^verbatim>\<open>defaultConfig.compilerOptions.baseUrl\<close>.\<close>

definition compilerOptions_paths :: "json option" where
  "compilerOptions_paths = Option.bind (get defaultConfig ''compilerOptions'') (\<lambda>co. get co ''paths'')"

definition compilerOptions_baseUrl :: "json option" where
  "compilerOptions_baseUrl = Option.bind (get defaultConfig ''compilerOptions'') (\<lambda>co. get co ''baseUrl'')"

subsection \<open>Paths\<close>

text \<open>
  A path is the list of its segments, so that \<^verbatim>\<open>path.dirname\<close> drops the last one and
  the ancestors of a path are its prefixes. The root path is kept in this form (it is
  \<^verbatim>\<open>process.cwd()\<close>, absolute and normalised); the relative paths of the source are
  the strings of the source, split at \<^verbatim>\<open>/\<close> when \<^verbatim>\<open>path.join\<close> appends them.
  \<^verbatim>\<open>path.join\<close> drops empty and \<^verbatim>\<open>.\<close> segments; no path of the source has a
  \<^verbatim>\<open>..\<close> segment.
\<close>

type_synonym path = "string list"

fun split_path :: "string \<Rightarrow> string list" where
  "split_path [] = [[]]"
| "split_path (c # cs) =
     (if c = CHR ''/'' then [] # split_path cs
      else (case split_path cs of [] \<Rightarrow> [[c]] | seg # segs \<Rightarrow> (c # seg) # segs))"

definition path_join :: "path \<Rightarrow> string \<Rightarrow> path" where
  "path_join root rel = root @ filter (\<lambda>seg. seg \<noteq> [] \<and> seg \<noteq> ''.'') (split_path rel)"

definition dirname :: "path \<Rightarrow> path" where
  "dirname p = butlast p"

subsection \<open>The filesystem\<close>

text \<open>
  What a file holds: the text given to \<^verbatim>\<open>fs.writeFileSync\<close> (as the bytes of its
  UTF-8 encoding), or the document given to \<^verbatim>\<open>fs.writeJsonSync\<close> (its
  serialisation with two spaces of indentation is not modelled).
\<close>

datatype data = Text string | Json json

text \<open>
  What can be thrown: the error that \<^verbatim>\<open>inquirer.prompt\<close> rejects with when there is
  no interactive terminal, the error of a filesystem call (its code and its path), and
  JavaScript's own \<^verbatim>\<open>TypeError\<close> with its message.
\<close>

datatype errno = EEXIST | ENOTDIR | EISDIR | ENOENT

datatype error = InputUnavailable | FilesystemError errno path | TypeError string

text \<open>
  The filesystem: the directories that exist and the files, with what they hold. The
  calls below fail where a file or a directory is in the way; failures that depend on
  more than this (permissions, a full disk) are outside the model.
\<close>

record filesystem =
  dirs :: "path set"
  files :: "path \<rightharpoonup> data"

text \<open>
  \<^verbatim>\<open>fs.mkdirpSync\<close>: create the directory and every missing ancestor; a directory
  that exists is left as it is. It fails, changing nothing, when the path or one of its
  ancestors is a file; the error names the path of the call.
\<close>

definition mkdirp :: "path \<Rightarrow> filesystem \<Rightarrow> error + filesystem" where
  "mkdirp p f =
     (case find (\<lambda>q. files f q \<noteq> None) (prefixes p) of
        Some q \<Rightarrow> Inl (FilesystemError (if q = p then EEXIST else ENOTDIR) p)
      | None \<Rightarrow> Inr (f\<lparr>dirs := dirs f \<union> set (prefixes p)\<rparr>))"

text \<open>
  \<^verbatim>\<open>fs.writeFileSync\<close> (and \<^verbatim>\<open>fs.writeJsonSync\<close>, which ends in it): create the
  file or replace what it holds. It creates no directory: it fails when the path is a
  directory, and when the parent is not a directory (because it or an ancestor is a
  file, or because it does not exist).
\<close>

definition write_file :: "path \<Rightarrow> data \<Rightarrow> filesystem \<Rightarrow> error + filesystem" where
  "write_file p d f =
     (if p \<in> dirs f then Inl (FilesystemError EISDIR p)
      else if dirname p \<notin> dirs f
      then (case find (\<lambda>q. files f q \<noteq> None) (prefixes (dirname p)) of
              Some q \<Rightarrow> Inl (FilesystemError ENOTDIR p)
            | None \<Rightarrow> Inl (FilesystemError ENOENT p))
      else Inr (f\<lparr>files := (files f)(p \<mapsto> d)\<rparr>))"

datatype fscall = Mkdirp path | WriteFile path data

fun apply_call :: "fscall \<Rightarrow> filesystem \<Rightarrow> error + filesystem" where
  "apply_call (Mkdirp p) = mkdirp p"
| "apply_call (WriteFile p d) = write_file p d"

subsection \<open>The scaffolder's state\<close>

text \<open>\<^verbatim>\<open>this.config\<close>; \<^verbatim>\<open>None\<close> is JavaScript's \<^verbatim>\<open>null\<close>.\<close>

record config =
  bottomNavigation :: bool
  storageType :: "string option"
  navigationSetup :: bool
  stateManagement :: "string option"

text \<open>
  The console: \<^verbatim>\<open>console.log(chalk.style(text))\<close>,
  \<^verbatim>\<open>console.error(chalk.style(text), error)\<close> and \<^verbatim>\<open>console.error(error)\<close>.
\<close>

datatype style = Green | Blue | Yellow | Cyan | Magenta | Red | BoldMagenta | BoldGreen

datatype line = Log style string | LogError style string error | PlainError error

text \<open>
  The state a run acts on: the configuration object, the filesystem, the console, and the
  filesystem calls issued so far, in order (a call is recorded when it is made, whether
  it then succeeds or fails).
\<close>

record state =
  config :: config
  fs :: filesystem
  console :: "line list"
  calls :: "fscall list"

text \<open>
  A method of the class: it returns the error it throws, if any, and the state it leaves.
  A statement sequence stops at the first error, and \<^verbatim>\<open>forEach\<close> is the sequence of
  its callback's runs.
\<close>

type_synonym cmd = "state \<Rightarrow> error option \<times> state"

fun seq :: "cmd list \<Rightarrow> cmd" where
  "seq [] s = (None, s)"
| "seq (c # cs) s = (case c s of (None, s') \<Rightarrow> seq cs s' | (Some e, s') \<Rightarrow> (Some e, s'))"

definition forEach :: "'a list \<Rightarrow> ('a \<Rightarrow> cmd) \<Rightarrow> cmd" where
  "forEach xs callback = seq (map callback xs)"

definition print :: "line \<Rightarrow> cmd" where
  "print l s = (None, s\<lparr>console := console s @ [l]\<rparr>)"

definition console_log :: "style \<Rightarrow> string \<Rightarrow> cmd" where
  "console_log st msg = print (Log st msg)"

definition throw :: "error \<Rightarrow> cmd" where
  "throw e s = (Some e, s)"

definition fs_call :: "fscall \<Rightarrow> cmd" where
  "fs_call c s =
     (case apply_call c (fs s) of
        Inl e \<Rightarrow> (Some e, s\<lparr>calls := calls s @ [c]\<rparr>)
      | Inr f \<Rightarrow> (None, s\<lparr>fs := f, calls := calls s @ [c]\<rparr>))"

definition mkdirpSync :: "path \<Rightarrow> cmd" where
  "mkdirpSync p = fs_call (Mkdirp p)"

definition writeFileSync :: "path \<Rightarrow> string \<Rightarrow> cmd" where
  "writeFileSync p content = fs_call (WriteFile p (Text content))"

definition writeJsonSync :: "path \<Rightarrow> json \<Rightarrow> cmd" where
  "writeJsonSync p doc = fs_call (WriteFile p (Json doc))"

subsection \<open>JavaScript values\<close>

text \<open>
  \<^verbatim>\<open>if (this.config.storageType)\<close>: \<^verbatim>\<open>null\<close> and the empty string are falsy, every
  other string is truthy.
\<close>

fun truthy :: "string option \<Rightarrow> bool" where
  "truthy None = False"
| "truthy (Some s) = (s \<noteq> [])"

text \<open>
  \<^verbatim>\<open>table[key]\<close> on an object literal: the key is turned into a property name
  (\<^verbatim>\<open>null\<close> becomes \<^verbatim>\<open>"null"\<close>), and a name the literal does not define is looked
  up in \<^verbatim>\<open>Object.prototype\<close>, whose properties are functions, and one object
  (\<^verbatim>\<open>__proto__\<close>): truthy values that are not arrays.
\<close>

fun property_key :: "string option \<Rightarrow> string" where
  "property_key None = ''null''"
| "property_key (Some s) = s"

definition Object_prototype :: "string list" where
  "Object_prototype =
    [''constructor'', ''__defineGetter__'', ''__defineSetter__'', ''hasOwnProperty'',
     ''__lookupGetter__'', ''__lookupSetter__'', ''isPrototypeOf'', ''propertyIsEnumerable'',
     ''toString'', ''valueOf'', ''__proto__'', ''toLocaleString'']"

datatype 'a property = Undefined | Own 'a | Inherited

definition property :: "(string \<times> 'a) list \<Rightarrow> string \<Rightarrow> 'a property" where
  "property obj k =
     (case map_of obj k of
        Some v \<Rightarrow> Own v
      | None \<Rightarrow> if k \<in> set Object_prototype then Inherited else Undefined)"

text \<open>
  \<^verbatim>\<open>table[key] || []\<close>: the list of the table (a list is truthy, also when empty), the
  empty list for an undefined property, and \<^verbatim>\<open>None\<close> for an inherited property, which
  is kept and has no \<^verbatim>\<open>forEach\<close>.
\<close>

fun or_empty :: "'a list property \<Rightarrow> 'a list option" where
  "or_empty Undefined = Some []"
| "or_empty (Own xs) = Some xs"
| "or_empty Inherited = None"

subsection \<open>The generated files\<close>

text \<open>
  A template literal, line by line; the file holds the lines joined by line feeds. The
  emoji of the source are written as the bytes of their UTF-8 encoding.
\<close>

fun template :: "string list \<Rightarrow> string" where
  "template [] = []"
| "template [l] = l"
| "template (l # ls) = l @ CHR 0x0A # template ls"

definition check_mark :: string where
  "check_mark = [CHR 0xE2, CHR 0x9C, CHR 0x85]"

definition cross_mark :: string where
  "cross_mark = [CHR 0xE2, CHR 0x9D, CHR 0x8C]"

definition rocket :: string where
  "rocket = [CHR 0xF0, CHR 0x9F, CHR 0x9A, CHR 0x80]"

text \<open>\<^verbatim>\<open>generateBottomTabContent\<close> (lines 472-474).\<close>

definition generateBottomTabContent_lines :: "string list" where
  \<open>generateBottomTabContent_lines =
    [''// Bottom Tab Navigation Placeholder'']\<close>

definition generateBottomTabContent :: string where
  "generateBottomTabContent = template generateBottomTabContent_lines"

text \<open>\<^verbatim>\<open>generateAsyncStorageContent\<close> (lines 476-541).\<close>

definition generateAsyncStorageContent_lines :: "string list" where
  \<open>generateAsyncStorageContent_lines =
    [''import AsyncStorage from \'@react-native-async-storage/async-storage\';'',
     ''      '',
     ''    /**'',
     ''     * A utility class for managing AsyncStorage.'',
     ''     */'',
     ''    class StorageUtil {'',
     ''    /**'',
     ''     * Set a value in AsyncStorage'',
     ''     * @param key - The key to store the value under'',
     ''     * @param value - The value to store'',
     ''     */'',
     ''    static async setItem(key: string, value: string): Promise<void> {'',
     ''        try {'',
     ''        await AsyncStorage.setItem(key, value);'',
     ''        console.log(`'' @ check_mark @ '' Successfully saved item with key: ${key}`);'',
     ''        } catch (error) {'',
     ''        console.error(`'' @ cross_mark @ '' Error saving item to AsyncStorage with key ${key}:`, error);'',
     ''        }'',
     ''    }'',
     ''    '',
     ''    /**'',
     ''     * Get a value from AsyncStorage'',
     ''     * @param key - The key to fetch value from'',
     ''     * @returns The value or null if not found'',
     ''     */'',
     ''    static async getItem(key: string): Promise<string | null> {'',
     ''        try {'',
     ''        const value = await AsyncStorage.getItem(key);'',
     ''        console.log(`'' @ check_mark @ '' Successfully fetched item with key: ${key}`);'',
     ''        return value;'',
     ''        } catch (error) {'',
     ''        console.error(`'' @ cross_mark @ '' Error fetching item from AsyncStorage with key ${key}:`, error);'',
     ''        return null;'',
     ''        }'',
     ''    }'',
     ''    '',
     ''    /**'',
     ''     * Delete an item from AsyncStorage'',
     ''     * @param key - The key to delete'',
     ''     */'',
     ''    static async deleteItem(key: string): Promise<void> {'',
     ''        try {'',
     ''        await AsyncStorage.removeItem(key);'',
     ''        console.log(`'' @ check_mark @ '' Successfully deleted item with key: ${key}`);'',
     ''        } catch (error) {'',
     ''        console.error(`'' @ cross_mark @ '' Error deleting item from AsyncStorage with key ${key}:`, error);'',
     ''        }'',
     ''    }'',
     ''    '',
     ''    /**'',
     ''     * Clear all items in AsyncStorage'',
     ''     */'',
     ''    static async clearAll(): Promise<void> {'',
     ''        try {'',
     ''        await AsyncStorage.clear();'',
     ''        console.log('' @ [CHR 0x27] @ check_mark @ '' Successfully cleared all AsyncStorage items\');'',
     ''        } catch (error) {'',
     ''        console.error('' @ [CHR 0x27] @ cross_mark @ '' Error clearing AsyncStorage:\', error);'',
     ''        }'',
     ''    }'',
     ''    }'',
     ''    '',
     ''    export default StorageUtil;'',
     ''      '']\<close>

definition generateAsyncStorageContent :: string where
  "generateAsyncStorageContent = template generateAsyncStorageContent_lines"

text \<open>\<^verbatim>\<open>generateMMKVStorageContent\<close> (lines 543-610).\<close>

definition generateMMKVStorageContent_lines :: "string list" where
  \<open>generateMMKVStorageContent_lines =
    [''import { MMKV } from \'react-native-mmkv\';'',
     ''        '',
     ''        /**'',
     ''         * A utility class for managing MMKV storage.'',
     ''         */'',
     ''        const storage = new MMKV();'',
     ''        '',
     ''        class MMKVStorageUtil {'',
     ''            /**'',
     ''             * Set a value in MMKV storage.'',
     ''             * @param key - The key to store the value under.'',
     ''             * @param value - The value to store.'',
     ''             */'',
     ''            static setItem(key: string, value: string): void {'',
     ''            try {'',
     ''                storage.set(key, value);'',
     ''                console.log(`'' @ check_mark @ '' Successfully saved item with key: ${key}`);'',
     ''            } catch (error) {'',
     ''                console.error(`'' @ cross_mark @ '' Error saving item to MMKV with key ${key}:`, error);'',
     ''            }'',
     ''            }'',
     ''        '',
     ''            /**'',
     ''             * Get a value from MMKV storage.'',
     ''             * @param key - The key to fetch value from.'',
     ''             * @returns The value or null if not found.'',
     ''             */'',
     ''            static getItem(key: string): string | null {'',
     ''            try {'',
     ''                const value = storage.getString(key);'',
     ''                console.log(`'' @ check_mark @ '' Successfully fetched item with key: ${key}`);'',
     ''                return value;'',
     ''            } catch (error) {'',
     ''                console.error(`'' @ cross_mark @ '' Error fetching item from MMKV with key ${key}:`, error);'',
     ''                return null;'',
     ''            }'',
     ''            }'',
     ''        '',
     ''            /**'',
     ''             * Delete an item from MMKV storage.'',
     ''             * @param key - The key to delete.'',
     ''             */'',
     ''            static deleteItem(key: string): void {'',
     ''            try {'',
     ''                storage.delete(key);'',
     ''                console.log(`'' @ check_mark @ '' Successfully deleted item with key: ${key}`);'',
     ''            } catch (error) {'',
     ''                console.error(`'' @ cross_mark @ '' Error deleting item from MMKV with key ${key}:`, error);'',
     ''            }'',
     ''            }'',
     ''        '',
     ''            /**'',
     ''             * Clear all data in MMKV storage.'',
     ''             */'',
     ''            static clearAll(): void {'',
     ''            try {'',
     ''                storage.clearAll();'',
     ''                console.log('' @ [CHR 0x27] @ check_mark @ '' Successfully cleared all MMKV storage items\');'',
     ''            } catch (error) {'',
     ''                console.error('' @ [CHR 0x27] @ cross_mark @ '' Error clearing MMKV storage:\', error);'',
     ''            }'',
     ''            }'',
     ''        }'',
     ''        '',
     ''        export default MMKVStorageUtil;'',
     ''      '']\<close>

definition generateMMKVStorageContent :: string where
  "generateMMKVStorageContent = template generateMMKVStorageContent_lines"

text \<open>\<^verbatim>\<open>generateRootNavigatorContent\<close> (lines 613-615).\<close>

definition generateRootNavigatorContent_lines :: "string list" where
  \<open>generateRootNavigatorContent_lines =
    [''// Root Navigator Placeholder'']\<close>

definition generateRootNavigatorContent :: string where
  "generateRootNavigatorContent = template generateRootNavigatorContent_lines"

text \<open>\<^verbatim>\<open>generateNavigationRefContent\<close> (lines 617-664).\<close>

definition generateNavigationRefContent_lines :: "string list" where
  \<open>generateNavigationRefContent_lines =
    [''import { NavigationContainerRef, createNavigationContainerRef } from \'@react-navigation/native\';'',
     ''      '',
     ''      /**'',
     ''       * Create a navigation reference to use outside of React components.'',
     ''       */'',
     ''      export const navigationRef: NavigationContainerRef = createNavigationContainerRef();'',
     ''      '',
     ''      /**'',
     ''       * Navigate to a specific route.'',
     ''       * @param routeName - The name of the route to navigate to.'',
     ''       * @param params - The params to pass to the route.'',
     ''       */'',
     ''      export function navigate(routeName: string, params?: Record<string, any>): void {'',
     ''        if (navigationRef.isReady()) {'',
     ''          navigationRef.navigate(routeName, params);'',
     ''        } else {'',
     ''          console.error(\'Navigation is not ready\');'',
     ''        }'',
     ''      }'',
     ''      '',
     ''      /**'',
     ''       * Go back to the previous route.'',
     ''       */'',
     ''      export function goBack(): void {'',
     ''        if (navigationRef.canGoBack()) {'',
     ''          navigationRef.goBack();'',
     ''        } else {'',
     ''          console.error(\'No routes to go back to\');'',
     ''        }'',
     ''      }'',
     ''      '',
     ''      /**'',
     ''       * Reset the navigation stack to a new route.'',
     ''       * @param routes - The list of routes to reset to.'',
     ''       */'',
     ''      export function resetNavigationStack(routes: Array<{ name: string; params?: Record<string, any> }>): void {'',
     ''        if (navigationRef.isReady()) {'',
     ''          navigationRef.reset({'',
     ''            index: routes.length - 1,'',
     ''            routes,'',
     ''          });'',
     ''        } else {'',
     ''          console.error(\'Navigation is not ready\');'',
     ''        }'',
     ''      }'',
     ''      '']\<close>

definition generateNavigationRefContent :: string where
  "generateNavigationRefContent = template generateNavigationRefContent_lines"

text \<open>\<^verbatim>\<open>generateMediaHandlerContent\<close> (lines 667-669).\<close>

definition generateMediaHandlerContent_lines :: "string list" where
  \<open>generateMediaHandlerContent_lines =
    [''// Media Handler Utility Placeholder'']\<close>

definition generateMediaHandlerContent :: string where
  "generateMediaHandlerContent = template generateMediaHandlerContent_lines"

text \<open>\<^verbatim>\<open>generateResponsiveScreenContent\<close> (lines 671-673).\<close>

definition generateResponsiveScreenContent_lines :: "string list" where
  \<open>generateResponsiveScreenContent_lines =
    [''// Responsive Screen Utility Placeholder'']\<close>

definition generateResponsiveScreenContent :: string where
  "generateResponsiveScreenContent = template generateResponsiveScreenContent_lines"

text \<open>The template of \<^verbatim>\<open>src/store/index.ts\<close> (lines 302-311).\<close>

definition store_index_ts_lines :: "string list" where
  \<open>store_index_ts_lines =
    ['''',
     ''                            import { configureStore } from \'@reduxjs/toolkit\';'',
     ''                            export const store = configureStore({'',
     ''                                reducer: {'',
     ''                                    // Add your reducers here'',
     ''                                },'',
     ''                            });'',
     ''                            export type RootState = ReturnType<typeof store.getState>;'',
     ''                            export type AppDispatch = typeof store.dispatch;'',
     ''                            '']\<close>

definition store_index_ts :: string where
  "store_index_ts = template store_index_ts_lines"

text \<open>The template of \<^verbatim>\<open>src/store/slices/exampleSlice.ts\<close> (lines 315-333).\<close>

definition exampleSlice_ts_lines :: "string list" where
  \<open>exampleSlice_ts_lines =
    ['''',
     ''                            import { createSlice } from \'@reduxjs/toolkit\';'',
     ''                            '',
     ''                            const initialState = {'',
     ''                                value: 0,'',
     ''                            };'',
     ''                            '',
     ''                            const exampleSlice = createSlice({'',
     ''                                name: \'example\','',
     ''                                initialState,'',
     ''                                reducers: {'',
     ''                                    increment: (state) => { state.value += 1; },'',
     ''                                    decrement: (state) => { state.value -= 1; }'',
     ''                                },'',
     ''                            });'',
     ''                            '',
     ''                            export const { increment, decrement } = exampleSlice.actions;'',
     ''                            export default exampleSlice.reducer;'',
     ''                                            '']\<close>

definition exampleSlice_ts :: string where
  "exampleSlice_ts = template exampleSlice_ts_lines"

text \<open>The template of \<^verbatim>\<open>src/store/zustand/exampleStore.ts\<close> (lines 339-355).\<close>

definition exampleStore_ts_lines :: "string list" where
  \<open>exampleStore_ts_lines =
    ['''',
     ''                                import create from \'zustand\';'',
     ''                                '',
     ''                                type ExampleState = {'',
     ''                                    value: number;'',
     ''                                    increment: () => void;'',
     ''                                    decrement: () => void;'',
     ''                                };'',
     ''                                '',
     ''                                const useExampleStore = create<ExampleState>((set: any) => ({'',
     ''                                    value: 0,'',
     ''                                    increment: () => set((state: any) => ({ value: state.value + 1 })),'',
     ''                                    decrement: () => set((state: any) => ({ value: state.value - 1 })),'',
     ''                                }));'',
     ''                                '',
     ''                                export default useExampleStore;'',
     ''                                                '']\<close>

definition exampleStore_ts :: string where
  "exampleStore_ts = template exampleStore_ts_lines"

text \<open>The template of \<^verbatim>\<open>src/context/providers/ExampleProvider.tsx\<close> (lines 361-392).\<close>

definition ExampleProvider_tsx_lines :: "string list" where
  \<open>ExampleProvider_tsx_lines =
    ['''',
     ''                            import React, { createContext, useContext, useState, ReactNode } from \'react\';'',
     ''                            '',
     ''                            type ExampleContextType = {'',
     ''                                value: number;'',
     ''                                increment: () => void;'',
     ''                                decrement: () => void;'',
     ''                            };'',
     ''                            '',
     ''                            const ExampleContext = createContext<ExampleContextType | undefined>(undefined);'',
     ''                            '',
     ''                            const ExampleProvider = ({ children }: { children: ReactNode }) => {'',
     ''                                const [value, setValue] = useState(0);'',
     ''                            '',
     ''                                const increment = () => setValue((prev) => prev + 1);'',
     ''                                const decrement = () => setValue((prev) => prev - 1);'',
     ''                            '',
     ''                                return ('',
     ''                                    <ExampleContext.Provider value={{ value, increment, decrement }}>'',
     ''                                        {children}'',
     ''                                    </ExampleContext.Provider>'',
     ''                                );'',
     ''                            };'',
     ''                            '',
     ''                            const useExampleContext = () => {'',
     ''                                const context = useContext(ExampleContext);'',
     ''                                if (!context) throw new Error(\'useExampleContext must be used within an ExampleProvider\');'',
     ''                                return context;'',
     ''                            };'',
     ''                            '',
     ''                            export { ExampleProvider, useExampleContext };'',
     ''                                            '']\<close>

definition ExampleProvider_tsx :: string where
  "ExampleProvider_tsx = template ExampleProvider_tsx_lines"

subsection \<open>The operator\<close>

text \<open>
  What \<^verbatim>\<open>inquirer.prompt\<close> resolves to for each of the four questions: the answer, or
  the error it rejects with when the interactive surface cannot be used. A list question
  answers with one of its choices; the model admits any string.
\<close>

record operator =
  answer_bottomNav :: "error + bool"
  answer_storageType :: "error + string"
  answer_navigationSetup :: "error + bool"
  answer_stateManagement :: "error + string"

text \<open>
  The \<^verbatim>\<open>choices\<close> of the two list questions (lines 94-98 and 130-135): what
  \<^verbatim>\<open>promptStorageSetup\<close> and \<^verbatim>\<open>promptStateManagement\<close> can be answered with
  at a terminal.
\<close>

definition storageType_choices :: "string list" where
  "storageType_choices = [''Async Storage'', ''React Native MMKV'', ''None'']"

definition stateManagement_choices :: "string list" where
  "stateManagement_choices = [''Redux Toolkit'', ''Zustand'', ''Context API'', ''None'']"

subsection \<open>The class ReactNativeProjectScaffolder\<close>

text \<open>
  The constructor (lines 12-20) on a given filesystem. \<^verbatim>\<open>this.rootPath\<close> is assigned
  there and nowhere else, so the methods below take it as a parameter.
\<close>

definition constructor :: "filesystem \<Rightarrow> state" where
  "constructor f =
     \<lparr>config = \<lparr>bottomNavigation = False, storageType = None,
                 navigationSetup = False, stateManagement = None\<rparr>,
      fs = f, console = [], calls = []\<rparr>"

text \<open>The four prompts (lines 72-139).\<close>

definition promptBottomNavigation :: "operator \<Rightarrow> cmd" where
  "promptBottomNavigation ui s =
     (case answer_bottomNav ui of
        Inl e \<Rightarrow> (Some e, s)
      | Inr bottomNav \<Rightarrow> (None, s\<lparr>config := (config s)\<lparr>bottomNavigation := bottomNav\<rparr>\<rparr>))"

definition promptStorageSetup :: "operator \<Rightarrow> cmd" where
  "promptStorageSetup ui s =
     (case answer_storageType ui of
        Inl e \<Rightarrow> (Some e, s)
      | Inr choice \<Rightarrow> (None, s\<lparr>config := (config s)\<lparr>storageType := Some choice\<rparr>\<rparr>))"

definition promptNavigationSetup :: "operator \<Rightarrow> cmd" where
  "promptNavigationSetup ui s =
     (case answer_navigationSetup ui of
        Inl e \<Rightarrow> (Some e, s)
      | Inr setup \<Rightarrow> (None, s\<lparr>config := (config s)\<lparr>navigationSetup := setup\<rparr>\<rparr>))"

definition promptStateManagement :: "operator \<Rightarrow> cmd" where
  "promptStateManagement ui s =
     (case answer_stateManagement ui of
        Inl e \<Rightarrow> (Some e, s)
      | Inr choice \<Rightarrow> (None, s\<lparr>config := (config s)\<lparr>stateManagement := Some choice\<rparr>\<rparr>))"

text \<open>\<^verbatim>\<open>ensureNavigationDirectory\<close> (lines 144-148).\<close>

definition ensureNavigationDirectory :: "path \<Rightarrow> cmd" where
  "ensureNavigationDirectory rootPath =
     seq [mkdirpSync (path_join rootPath ''src/navigation''),
          console_log Green ''Ensured navigation directory exists: src/navigation'']"

text \<open>\<^verbatim>\<open>createBaseDirectories\<close> (lines 153-206).\<close>

definition baseDirectories :: "string list" where
  "baseDirectories =
    [''src/assets/fonts'',
     ''src/assets/icons/imageIcons'',
     ''src/assets/icons/svgIcons'',
     ''src/assets/images/PngAndJpgImages'',
     ''src/assets/images/SvgImages'',
     ''src/assets/images/OtherImages'',
     ''src/components/global'',
     ''src/components/forms'',
     ''src/store'',
     ''src/constants'',
     ''src/hooks'',
     ''src/context'',
     ''src/features/auth'',
     ''src/features/dashboard'',
     ''src/features/settings'',
     ''src/features/chat'',
     ''src/i18n/locales'',
     ''src/service'',
     ''src/styles'',
     ''src/theme'',
     ''src/types'',
     ''src/utils'']"

definition createBaseDirectories :: "path \<Rightarrow> cmd" where
  "createBaseDirectories rootPath =
     forEach baseDirectories (\<lambda>dir.
       seq [mkdirpSync (path_join rootPath dir),
            console_log Green (''Created directory: '' @ dir)])"

text \<open>\<^verbatim>\<open>setupBottomNavigation\<close> (lines 211-234).\<close>

definition bottomNavDirectories :: "string list" where
  "bottomNavDirectories = [''src/assets/icons/BottomTabIcons'']"

definition bottomNavFiles :: "string list" where
  "bottomNavFiles = [''src/navigation/BottomTabNavigator.tsx'']"

definition setupBottomNavigation :: "path \<Rightarrow> cmd" where
  "setupBottomNavigation rootPath =
     seq [forEach bottomNavDirectories (\<lambda>dir.
            seq [mkdirpSync (path_join rootPath dir),
                 console_log Blue (''Created Bottom Nav directory: '' @ dir)]),
          forEach bottomNavFiles (\<lambda>file.
            seq [writeFileSync (path_join rootPath file) generateBottomTabContent,
                 console_log Yellow (''Created Bottom Nav file: '' @ file)])]"

text \<open>An entry of the file tables: \<^verbatim>\<open>{ path: ..., content: ... }\<close>.\<close>

record entry =
  path :: string
  content :: string

text \<open>
  The loop body that \<^verbatim>\<open>setupStorage\<close>, \<^verbatim>\<open>setupNavigation\<close>,
  \<^verbatim>\<open>setupStateManagement\<close> and \<^verbatim>\<open>createUtilityFiles\<close> share, but for the
  colour and the wording of the line they print.
\<close>

definition write_entry :: "path \<Rightarrow> style \<Rightarrow> string \<Rightarrow> entry \<Rightarrow> cmd" where
  "write_entry rootPath st label file =
     seq [mkdirpSync (dirname (path_join rootPath (path file))),
          writeFileSync (path_join rootPath (path file)) (content file),
          console_log st (label @ path file)]"

text \<open>\<^verbatim>\<open>setupStorage\<close> (lines 239-265).\<close>

definition storageFiles :: "(string \<times> entry list) list" where
  "storageFiles =
    [(''Async Storage'',
        [\<lparr>path = ''src/utils/asyncStorage.ts'', content = generateAsyncStorageContent\<rparr>]),
     (''React Native MMKV'',
        [\<lparr>path = ''src/utils/mmkvStorage.ts'', content = generateMMKVStorageContent\<rparr>])]"

definition setupStorage :: "path \<Rightarrow> cmd" where
  "setupStorage rootPath s =
     (case or_empty (property storageFiles (property_key (storageType (config s)))) of
        None \<Rightarrow> throw (TypeError ''files.forEach is not a function'') s
      | Some entries \<Rightarrow>
          forEach entries (write_entry rootPath Cyan ''Created storage file: '') s)"

text \<open>\<^verbatim>\<open>setupNavigation\<close> (lines 270-292).\<close>

definition navigationFiles :: "entry list" where
  "navigationFiles =
    [\<lparr>path = ''src/navigation/RootNavigator.tsx'', content = generateRootNavigatorContent\<rparr>,
     \<lparr>path = ''src/navigation/NavigationRef.ts'', content = generateNavigationRefContent\<rparr>]"

definition setupNavigation :: "path \<Rightarrow> cmd" where
  "setupNavigation rootPath =
     forEach navigationFiles (write_entry rootPath Magenta ''Created navigation file: '')"

text \<open>\<^verbatim>\<open>setupStateManagement\<close> (lines 297-407).\<close>

definition stateManagementFiles :: "(string \<times> entry list) list" where
  "stateManagementFiles =
    [(''Redux Toolkit'',
        [\<lparr>path = ''src/store/index.ts'', content = store_index_ts\<rparr>,
         \<lparr>path = ''src/store/slices/exampleSlice.ts'', content = exampleSlice_ts\<rparr>]),
     (''Zustand'',
        [\<lparr>path = ''src/store/zustand/exampleStore.ts'', content = exampleStore_ts\<rparr>]),
     (''Context API'',
        [\<lparr>path = ''src/context/providers/ExampleProvider.tsx'', content = ExampleProvider_tsx\<rparr>])]"

definition setupStateManagement :: "path \<Rightarrow> cmd" where
  "setupStateManagement rootPath s =
     (case or_empty (property stateManagementFiles (property_key (stateManagement (config s)))) of
        None \<Rightarrow> throw (TypeError ''files.forEach is not a function'') s
      | Some entries \<Rightarrow>
          forEach entries (write_entry rootPath Cyan ''Created state management file: '') s)"

text \<open>\<^verbatim>\<open>createUtilityFiles\<close> (lines 413-434).\<close>

definition utilFiles :: "entry list" where
  "utilFiles =
    [\<lparr>path = ''src/utils/MediaHandler.ts'', content = generateMediaHandlerContent\<rparr>,
     \<lparr>path = ''src/utils/responsive-screen.ts'', content = generateResponsiveScreenContent\<rparr>]"

definition createUtilityFiles :: "path \<Rightarrow> cmd" where
  "createUtilityFiles rootPath =
     forEach utilFiles (write_entry rootPath Yellow ''Created utility file: '')"

text \<open>\<^verbatim>\<open>createTsConfig\<close> (lines 439-469).\<close>

definition createTsConfig :: "path \<Rightarrow> cmd" where
  "createTsConfig rootPath =
     seq [writeJsonSync (path_join rootPath ''tsconfig.json'') defaultConfig,
          console_log Blue ''Created/Updated tsconfig.json'']"

text \<open>
  \<^verbatim>\<open>scaffold\<close> (lines 25-66): first the statements of its \<^verbatim>\<open>try\<close> block, then the
  method, which catches whatever they throw. The method is \<^verbatim>\<open>async\<close>: it returns a
  promise, which is fulfilled on both paths.
\<close>

definition scaffold_try :: "path \<Rightarrow> operator \<Rightarrow> cmd" where
  "scaffold_try rootPath ui =
     seq [promptBottomNavigation ui,
          promptStorageSetup ui,
          promptNavigationSetup ui,
          promptStateManagement ui,
          createBaseDirectories rootPath,
          ensureNavigationDirectory rootPath,
          (\<lambda>s. if bottomNavigation (config s) then setupBottomNavigation rootPath s else (None, s)),
          (\<lambda>s. if truthy (storageType (config s)) then setupStorage rootPath s else (None, s)),
          (\<lambda>s. if navigationSetup (config s) then setupNavigation rootPath s else (None, s)),
          (\<lambda>s. if truthy (stateManagement (config s)) then setupStateManagement rootPath s else (None, s)),
          createUtilityFiles rootPath,
          createTsConfig rootPath,
          console_log BoldGreen (check_mark @ '' Project structure created successfully!'')]"

datatype promise = Fulfilled | Rejected error

definition scaffold :: "path \<Rightarrow> operator \<Rightarrow> state \<Rightarrow> promise \<times> state" where
  "scaffold rootPath ui s =
     (case scaffold_try rootPath ui
             (snd (console_log BoldMagenta (rocket @ '' React Native Maker (Project Scaffolder)'') s)) of
        (None, s') \<Rightarrow> (Fulfilled, s')
      | (Some error, s') \<Rightarrow>
          (Fulfilled, snd (print (LogError Red (cross_mark @ '' Scaffolding failed:'') error) s')))"

text \<open>
  The CLI entry point (lines 679-682): a scaffolder on the current working directory, and
  \<^verbatim>\<open>scaffold().catch(console.error)\<close>. Nothing sets an exit code or ends the process,
  which ends with status 0 when the promise is settled.
\<close>

definition cli :: "path \<Rightarrow> operator \<Rightarrow> filesystem \<Rightarrow> int \<times> state" where
  "cli cwd ui f =
     (case scaffold cwd ui (constructor f) of
        (Fulfilled, s) \<Rightarrow> (0, s)
      | (Rejected e, s) \<Rightarrow> (0, snd (print (PlainError e) s)))"

subsection \<open>The generated TypeScript\<close>

text \<open>
  \<^verbatim>\<open>NavigationRef.ts\<close> (lines 653-662 of the source, in the template of
  \<^verbatim>\<open>generateNavigationRefContent\<close>). The navigation container is React Navigation's,
  with one navigator: the names of the screens registered with it, and its state (the
  routes of the stack and the index of the active one). \<^verbatim>\<open>navigationRef.reset\<close>
  dispatches a \<^verbatim>\<open>RESET\<close> action with the state it is given. The navigator ignores
  the action when that state has no route, or has a route whose name is not registered;
  otherwise the state replaces the navigator's. Screens are registered by name alone,
  without initial parameters, and the keys that the navigator gives to the routes it
  takes are left out.
\<close>

record 'p route =
  name :: string
  params :: "'p option"

record 'p navigation_state =
  index :: int
  routes :: "'p route list"

record 'p container =
  ready :: bool
  routeNames :: "string list"
  navigation :: "'p navigation_state"
  console_errors :: "string list"

definition reset :: "'p navigation_state \<Rightarrow> 'p container \<Rightarrow> 'p container" where
  "reset st c =
     (if routes st = [] \<or> list_ex (\<lambda>r. name r \<notin> set (routeNames c)) (routes st)
      then c
      else c\<lparr>navigation := st\<rparr>)"

definition resetNavigationStack :: "'p route list \<Rightarrow> 'p container \<Rightarrow> 'p container" where
  "resetNavigationStack rs navigationRef =
     (if ready navigationRef
      then reset \<lparr>index = int (length rs) - 1, routes = rs\<rparr> navigationRef
      else navigationRef\<lparr>console_errors :=
             console_errors navigationRef @ [''Navigation is not ready'']\<rparr>)"

text \<open>
  A TypeScript \<^verbatim>\<open>number\<close> is a double. Every finite double is an integer multiple of
  \<open>2\<^sup>-\<^sup>1\<^sup>0\<^sup>7\<^sup>4\<close>, the smallest positive double: \<open>Finite k\<close> stands for
  \<open>k \<times> 2\<^sup>-\<^sup>1\<^sup>0\<^sup>7\<^sup>4\<close>, where \<open>k\<close> has at most 53 significant bits and is below
  \<open>2\<^sup>2\<^sup>0\<^sup>9\<^sup>8\<close> in magnitude (the double is below \<open>2\<^sup>1\<^sup>0\<^sup>2\<^sup>4\<close>). Negative zero is not
  told from zero: adding 1 to either, or subtracting 1, gives the same number, and no
  sum or difference of a number and 1 is negative zero.
\<close>

datatype number = NaN | PositiveInfinity | NegativeInfinity | Finite int

text \<open>The number of bits of a positive integer.\<close>

function bit_length :: "int \<Rightarrow> nat" where
  "bit_length m = (if m \<le> 0 then 0 else Suc (bit_length (m div 2)))"
  by pat_completeness auto
termination
  by (relation "measure nat") auto

declare bit_length.simps [simp del]

text \<open>
  The multiple of \<open>2\<^sup>j\<close> nearest to \<open>m\<close>, which is not negative; of two that are
  equally near, the one whose quotient by \<open>2\<^sup>j\<close> is even.
\<close>

definition round_half_even :: "int \<Rightarrow> nat \<Rightarrow> int" where
  "round_half_even m j =
     (let q = m div 2 ^ j; r = m mod 2 ^ j
      in (if 2 * r < 2 ^ j then q
          else if 2 ^ j < 2 * r then q + 1
          else if even q then q else q + 1) * 2 ^ j)"

text \<open>
  The double that an arithmetic operation returns when its exact result is
  \<open>k \<times> 2\<^sup>-\<^sup>1\<^sup>0\<^sup>7\<^sup>4\<close>: the nearest number with 53 significant bits, ties to even, and
  an infinity when that is \<open>2\<^sup>1\<^sup>0\<^sup>2\<^sup>4\<close> or more in magnitude.
\<close>

definition to_number :: "int \<Rightarrow> number" where
  "to_number k =
     (let r = round_half_even \<bar>k\<bar> (bit_length \<bar>k\<bar> - 53)
      in if 2 ^ 2098 \<le> r then (if k < 0 then NegativeInfinity else PositiveInfinity)
         else Finite (if k < 0 then - r else r))"

text \<open>The operators \<^verbatim>\<open>+\<close> and \<^verbatim>\<open>-\<close> on numbers.\<close>

fun number_add :: "number \<Rightarrow> number \<Rightarrow> number" where
  "number_add (Finite a) (Finite b) = to_number (a + b)"
| "number_add NaN y = NaN"
| "number_add x NaN = NaN"
| "number_add PositiveInfinity NegativeInfinity = NaN"
| "number_add NegativeInfinity PositiveInfinity = NaN"
| "number_add PositiveInfinity y = PositiveInfinity"
| "number_add x PositiveInfinity = PositiveInfinity"
| "number_add NegativeInfinity y = NegativeInfinity"
| "number_add x NegativeInfinity = NegativeInfinity"

fun number_neg :: "number \<Rightarrow> number" where
  "number_neg (Finite a) = Finite (- a)"
| "number_neg PositiveInfinity = NegativeInfinity"
| "number_neg NegativeInfinity = PositiveInfinity"
| "number_neg NaN = NaN"

definition number_sub :: "number \<Rightarrow> number \<Rightarrow> number" where
  "number_sub x y = number_add x (number_neg y)"

text \<open>
  The number whose value is the integer \<open>v\<close>. It is a double when \<open>v\<close> is at most
  \<open>2\<^sup>5\<^sup>3\<close> in magnitude, as the literals \<^verbatim>\<open>0\<close> and \<^verbatim>\<open>1\<close> of the generated
  files are.
\<close>

definition number_of_int :: "int \<Rightarrow> number" where
  "number_of_int v = Finite (v * 2 ^ 1074)"

text \<open>
  The counter of \<^verbatim>\<open>exampleSlice.ts\<close> (Redux Toolkit, lines 318-328): the state
  \<^verbatim>\<open>{ value: 0 }\<close> and its two reducers.
\<close>

record counter =
  "value" :: number

definition exampleSlice_initialState :: counter where
  "exampleSlice_initialState = \<lparr>value = number_of_int 0\<rparr>"

definition exampleSlice_increment :: "counter \<Rightarrow> counter" where
  "exampleSlice_increment state = state\<lparr>value := number_add (value state) (number_of_int 1)\<rparr>"

definition exampleSlice_decrement :: "counter \<Rightarrow> counter" where
  "exampleSlice_decrement state = state\<lparr>value := number_sub (value state) (number_of_int 1)\<rparr>"

text \<open>
  The counter of \<^verbatim>\<open>exampleStore.ts\<close> (Zustand, lines 348-352): \<^verbatim>\<open>set\<close> merges the
  object its argument returns into the state.
\<close>

definition useExampleStore_initial :: counter where
  "useExampleStore_initial = \<lparr>value = number_of_int 0\<rparr>"

definition useExampleStore_increment :: "counter \<Rightarrow> counter" where
  "useExampleStore_increment state = state\<lparr>value := number_add (value state) (number_of_int 1)\<rparr>"

definition useExampleStore_decrement :: "counter \<Rightarrow> counter" where
  "useExampleStore_decrement state = state\<lparr>value := number_sub (value state) (number_of_int 1)\<rparr>"

text \<open>
  The counter of \<^verbatim>\<open>ExampleProvider.tsx\<close> (Context API, lines 373-376):
  \<^verbatim>\<open>useState(0)\<close>, and the two updates given to \<^verbatim>\<open>setValue\<close>.
\<close>

definition ExampleProvider_initial :: number where
  "ExampleProvider_initial = number_of_int 0"

definition ExampleProvider_increment :: "number \<Rightarrow> number" where
  "ExampleProvider_increment prev = number_add prev (number_of_int 1)"

definition ExampleProvider_decrement :: "number \<Rightarrow> number" where
  "ExampleProvider_decrement prev = number_sub prev (number_of_int 1)"

text \<open>
  Reading a generated file: its lines, a line without its indentation, the names of the
  static methods that a class body declares (\<^verbatim>\<open>static name(\<close> or
  \<^verbatim>\<open>static async name(\<close>), and its lines without their indentation.
\<close>

fun split_lines :: "string \<Rightarrow> string list" where
  "split_lines [] = [[]]"
| "split_lines (c # cs) =
     (if c = CHR 0x0A then [] # split_lines cs
      else (case split_lines cs of [] \<Rightarrow> [[c]] | l # ls \<Rightarrow> (c # l) # ls))"

definition trim :: "string \<Rightarrow> string" where
  "trim l = dropWhile (\<lambda>c. c = CHR '' '') l"



definition statements :: "string \<Rightarrow> string list" where
  "statements text = map trim (split_lines text)"

subsection \<open>A run as a list of effects\<close>

text \<open>
  The methods above do three things: they call the filesystem, print a line, or throw.
  The statements of a run after its prompts are those of a list of such effects, fixed by
  the root path and the configuration.
\<close>

datatype effect = Call fscall | Print line | Raise error

fun perform :: "effect \<Rightarrow> cmd" where
  "perform (Call c) = fs_call c"
| "perform (Print l) = print l"
| "perform (Raise e) = throw e"

definition run :: "effect list \<Rightarrow> cmd" where
  "run es = seq (map perform es)"

definition directory_effects :: "path \<Rightarrow> style \<Rightarrow> string \<Rightarrow> string \<Rightarrow> effect list" where
  "directory_effects rootPath st label dir =
     [Call (Mkdirp (path_join rootPath dir)), Print (Log st (label @ dir))]"

definition entry_effects :: "path \<Rightarrow> style \<Rightarrow> string \<Rightarrow> entry \<Rightarrow> effect list" where
  "entry_effects rootPath st label file =
     [Call (Mkdirp (dirname (path_join rootPath (path file)))),
      Call (WriteFile (path_join rootPath (path file)) (Text (content file))),
      Print (Log st (label @ path file))]"

definition table_effects ::
  "path \<Rightarrow> string \<Rightarrow> (string \<times> entry list) list \<Rightarrow> string option \<Rightarrow> effect list" where
  "table_effects rootPath label table choice =
     (case or_empty (property table (property_key choice)) of
        None \<Rightarrow> [Raise (TypeError ''files.forEach is not a function'')]
      | Some entries \<Rightarrow> concat (map (entry_effects rootPath Cyan label) entries))"

definition plan :: "path \<Rightarrow> config \<Rightarrow> effect list" where
  "plan rootPath cfg =
     concat (map (directory_effects rootPath Green ''Created directory: '') baseDirectories)
     @ [Call (Mkdirp (path_join rootPath ''src/navigation'')),
        Print (Log Green ''Ensured navigation directory exists: src/navigation'')]
     @ (if bottomNavigation cfg
        then concat (map (directory_effects rootPath Blue ''Created Bottom Nav directory: '')
                      bottomNavDirectories)
             @ concat (map (\<lambda>file.
                 [Call (WriteFile (path_join rootPath file) (Text generateBottomTabContent)),
                  Print (Log Yellow (''Created Bottom Nav file: '' @ file))]) bottomNavFiles)
        else [])
     @ (if truthy (storageType cfg)
        then table_effects rootPath ''Created storage file: '' storageFiles (storageType cfg)
        else [])
     @ (if navigationSetup cfg
        then concat (map (entry_effects rootPath Magenta ''Created navigation file: '')
                      navigationFiles)
        else [])
     @ (if truthy (stateManagement cfg)
        then table_effects rootPath ''Created state management file: '' stateManagementFiles
               (stateManagement cfg)
        else [])
     @ concat (map (entry_effects rootPath Yellow ''Created utility file: '') utilFiles)
     @ [Call (WriteFile (path_join rootPath ''tsconfig.json'') (Json defaultConfig)),
        Print (Log Blue ''Created/Updated tsconfig.json''),
        Print (Log BoldGreen (check_mark @ '' Project structure created successfully!''))]"

text \<open>What a list of effects does to a filesystem, which error ends it, and which calls it issues.\<close>

fun fs_run :: "effect list \<Rightarrow> filesystem \<Rightarrow> filesystem" where
  "fs_run [] f = f"
| "fs_run (Call c # es) f = (case apply_call c f of Inl e \<Rightarrow> f | Inr f' \<Rightarrow> fs_run es f')"
| "fs_run (Print l # es) f = fs_run es f"
| "fs_run (Raise e # es) f = f"

fun outcome :: "effect list \<Rightarrow> filesystem \<Rightarrow> error option" where
  "outcome [] f = None"
| "outcome (Call c # es) f = (case apply_call c f of Inl e \<Rightarrow> Some e | Inr f' \<Rightarrow> outcome es f')"
| "outcome (Print l # es) f = outcome es f"
| "outcome (Raise e # es) f = Some e"

fun issued :: "effect list \<Rightarrow> filesystem \<Rightarrow> fscall list" where
  "issued [] f = []"
| "issued (Call c # es) f = c # (case apply_call c f of Inl e \<Rightarrow> [] | Inr f' \<Rightarrow> issued es f')"
| "issued (Print l # es) f = issued es f"
| "issued (Raise e # es) f = []"

text \<open>The calls that a list of effects holds, and the paths of the files it may write.\<close>

fun calls_of :: "effect list \<Rightarrow> fscall list" where
  "calls_of [] = []"
| "calls_of (Call c # es) = c # calls_of es"
| "calls_of (Print l # es) = calls_of es"
| "calls_of (Raise e # es) = calls_of es"

fun written :: "fscall list \<Rightarrow> path list" where
  "written [] = []"
| "written (WriteFile p d # cs) = p # written cs"
| "written (Mkdirp p # cs) = written cs"

text \<open>
  The order the specification asks of filesystem calls: each file is written into a
  directory that an earlier \<^verbatim>\<open>mkdirp\<close> call of the same run has ensured, as the target
  of the call or as an ancestor of its target.
\<close>

fun parents_created_first :: "path set \<Rightarrow> fscall list \<Rightarrow> bool" where
  "parents_created_first ensured [] = True"
| "parents_created_first ensured (Mkdirp p # cs) =
     parents_created_first (ensured \<union> set (prefixes p)) cs"
| "parents_created_first ensured (WriteFile p d # cs) =
     (dirname p \<in> ensured \<and> parents_created_first ensured cs)"

text \<open>
  The filesystem that a list of calls leaves when they are made in order, up to the
  first that fails; and whether, at each call of the list that writes a file, the
  parent directory of the file exists in the filesystem that the calls before it
  have left (a call that fails is the last).
\<close>

fun replay :: "fscall list \<Rightarrow> filesystem \<Rightarrow> filesystem" where
  "replay [] f = f"
| "replay (c # cs) f = (case apply_call c f of Inl e \<Rightarrow> f | Inr f' \<Rightarrow> replay cs f')"

fun parents_exist :: "fscall list \<Rightarrow> filesystem \<Rightarrow> bool" where
  "parents_exist [] f = True"
| "parents_exist (c # cs) f =
     ((case c of Mkdirp p \<Rightarrow> True | WriteFile p d \<Rightarrow> dirname p \<in> dirs f)
      \<and> (case apply_call c f of Inl e \<Rightarrow> cs = [] | Inr f' \<Rightarrow> parents_exist cs f'))"

text \<open>
  Two calls agree when they do not write different data to one path; a list of calls is
  consistent when each call agrees with every later one.
\<close>

fun agree :: "fscall \<Rightarrow> fscall \<Rightarrow> bool" where
  "agree (WriteFile p d) (WriteFile p' d') = (p \<noteq> p' \<or> d = d')"
| "agree _ _ = True"

fun consistent :: "fscall list \<Rightarrow> bool" where
  "consistent [] = True"
| "consistent (c # cs) = (list_all (agree c) cs \<and> consistent cs)"

text \<open>What a call creates is present in a filesystem.\<close>

fun present :: "fscall \<Rightarrow> filesystem \<Rightarrow> bool" where
  "present (Mkdirp p) f = (p \<in> dirs f)"
| "present (WriteFile p d) f = (files f p \<noteq> None)"

text \<open>Every file that some configuration writes, with what it holds.\<close>

definition every_file :: "(string \<times> data) list" where
  "every_file =
    [(''src/navigation/BottomTabNavigator.tsx'', Text generateBottomTabContent),
     (''src/utils/asyncStorage.ts'', Text generateAsyncStorageContent),
     (''src/utils/mmkvStorage.ts'', Text generateMMKVStorageContent),
     (''src/navigation/RootNavigator.tsx'', Text generateRootNavigatorContent),
     (''src/navigation/NavigationRef.ts'', Text generateNavigationRefContent),
     (''src/store/index.ts'', Text store_index_ts),
     (''src/store/slices/exampleSlice.ts'', Text exampleSlice_ts),
     (''src/store/zustand/exampleStore.ts'', Text exampleStore_ts),
     (''src/context/providers/ExampleProvider.tsx'', Text ExampleProvider_tsx),
     (''src/utils/MediaHandler.ts'', Text generateMediaHandlerContent),
     (''src/utils/responsive-screen.ts'', Text generateResponsiveScreenContent),
     (''tsconfig.json'', Json defaultConfig)]"

text \<open>A project directory in which nothing has been created: the root and its ancestors exist.\<close>

definition empty_project :: "path \<Rightarrow> filesystem" where
  "empty_project rootPath = \<lparr>dirs = set (prefixes rootPath), files = Map.empty\<rparr>"

section \<open>Properties\<close>

subsection \<open>Statement sequences\<close>

text \<open>
  A sequence of two lists of statements runs the second list unless the first throws.
\<close>

lemma seq_append:
  "seq (xs @ ys) s = (case seq xs s of (None, s') \<Rightarrow> seq ys s' | (Some e, s') \<Rightarrow> (Some e, s'))"
  by (induction xs arbitrary: s) (auto split: prod.splits option.splits)

subsection \<open>The methods as lists of effects\<close>

text \<open>
  Each method of the class does what its list of effects does; after the four prompts,
  a run does what the plan of its configuration does.
\<close>

lemma run_Nil [simp]: "run [] s = (None, s)"
  by (simp add: run_def)

lemma run_Cons:
  "run (e # es) s = (case perform e s of (None, s') \<Rightarrow> run es s' | (Some x, s') \<Rightarrow> (Some x, s'))"
  unfolding run_def by simp

lemma run_append:
  "run (xs @ ys) s = (case run xs s of (None, s') \<Rightarrow> run ys s' | (Some e, s') \<Rightarrow> (Some e, s'))"
  unfolding run_def by (simp add: seq_append)

lemma config_perform: "config (snd (perform e s)) = config s"
  by (cases e) (auto simp: fs_call_def print_def throw_def split: sum.splits)

lemma config_run: "config (snd (run es s)) = config s"
proof (induction es arbitrary: s)
  case Nil
  then show ?case by simp
next
  case (Cons e es)
  show ?case
  proof (cases "perform e s")
    case (Pair r s')
    have "config s' = config s" using config_perform [of e s] Pair by simp
    with Cons Pair show ?thesis by (cases r) (simp_all add: run_Cons)
  qed
qed

lemma seq_cons_run:
  assumes c: "\<And>s. config s = cfg \<Longrightarrow> c s = run a s"
    and cs: "\<And>s. config s = cfg \<Longrightarrow> seq cs s = run b s"
    and s: "config s = cfg"
  shows "seq (c # cs) s = run (a @ b) s"
proof (cases "run a s")
  case (Pair r s')
  have "config s' = cfg" using config_run [of a s] Pair s by simp
  with Pair c [OF s] cs show ?thesis by (cases r) (simp_all add: run_append)
qed

lemma forEach_run:
  "(\<And>x. x \<in> set xs \<Longrightarrow> callback x = run (g x)) \<Longrightarrow> forEach xs callback = run (concat (map g xs))"
proof (induction xs)
  case Nil
  then show ?case by (simp add: forEach_def run_def)
next
  case (Cons x xs)
  then have "forEach xs callback = run (concat (map g xs))" by simp
  moreover have "callback x = run (g x)" using Cons.prems by simp
  ultimately show ?case
    by (auto simp: forEach_def run_def seq_append fun_eq_iff split: prod.splits option.splits)
qed

lemma write_entry_run: "write_entry rootPath st label file = run (entry_effects rootPath st label file)"
  by (auto simp: write_entry_def entry_effects_def run_def mkdirpSync_def writeFileSync_def console_log_def fun_eq_iff)

lemma directory_run:
  "seq [mkdirpSync (path_join rootPath dir), console_log st (label @ dir)] = run (directory_effects rootPath st label dir)"
  by (auto simp: directory_effects_def run_def mkdirpSync_def console_log_def fun_eq_iff)

lemma createBaseDirectories_run:
  "createBaseDirectories rootPath =
   run (concat (map (directory_effects rootPath Green ''Created directory: '') baseDirectories))"
  unfolding createBaseDirectories_def by (rule forEach_run) (rule directory_run)

lemma table_run:
  "(case or_empty (property table (property_key choice)) of
        None \<Rightarrow> throw (TypeError ''files.forEach is not a function'') s
      | Some entries \<Rightarrow> forEach entries (write_entry rootPath Cyan label) s)
   = run (table_effects rootPath label table choice) s"
  by (auto simp: table_effects_def run_def throw_def forEach_run [OF write_entry_run] split: option.splits)

lemma ensureNavigationDirectory_run:
  "ensureNavigationDirectory rootPath =
   run [Call (Mkdirp (path_join rootPath ''src/navigation'')),
        Print (Log Green ''Ensured navigation directory exists: src/navigation'')]"
  by (auto simp: ensureNavigationDirectory_def run_def mkdirpSync_def console_log_def fun_eq_iff)

lemma bottomNavFile_run:
  "seq [writeFileSync (path_join rootPath file) generateBottomTabContent,
        console_log Yellow (''Created Bottom Nav file: '' @ file)]
   = run [Call (WriteFile (path_join rootPath file) (Text generateBottomTabContent)),
          Print (Log Yellow (''Created Bottom Nav file: '' @ file))]"
  by (auto simp: run_def writeFileSync_def console_log_def fun_eq_iff)

lemma seq_two_runs: "seq [run a, run b] = run (a @ b)"
  by (auto simp: fun_eq_iff run_append split: prod.splits option.splits)

lemma setupBottomNavigation_run:
  "setupBottomNavigation rootPath =
   run (concat (map (directory_effects rootPath Blue ''Created Bottom Nav directory: '')
                      bottomNavDirectories)
        @ concat (map (\<lambda>file.
                 [Call (WriteFile (path_join rootPath file) (Text generateBottomTabContent)),
                  Print (Log Yellow (''Created Bottom Nav file: '' @ file))]) bottomNavFiles))"
  unfolding setupBottomNavigation_def
  by (simp only: forEach_run [OF directory_run] forEach_run [OF bottomNavFile_run] seq_two_runs)

lemma setupStorage_run:
  "setupStorage rootPath s =
   run (table_effects rootPath ''Created storage file: '' storageFiles (storageType (config s))) s"
  unfolding setupStorage_def by (rule table_run)

lemma setupStateManagement_run:
  "setupStateManagement rootPath s =
   run (table_effects rootPath ''Created state management file: '' stateManagementFiles
          (stateManagement (config s))) s"
  unfolding setupStateManagement_def by (rule table_run)

lemma setupNavigation_run:
  "setupNavigation rootPath =
   run (concat (map (entry_effects rootPath Magenta ''Created navigation file: '') navigationFiles))"
  unfolding setupNavigation_def by (rule forEach_run) (rule write_entry_run)

lemma createUtilityFiles_run:
  "createUtilityFiles rootPath =
   run (concat (map (entry_effects rootPath Yellow ''Created utility file: '') utilFiles))"
  unfolding createUtilityFiles_def by (rule forEach_run) (rule write_entry_run)

lemma generators_run:
  "config s = cfg \<Longrightarrow>
   seq [createBaseDirectories rootPath,
        ensureNavigationDirectory rootPath,
        (\<lambda>s. if bottomNavigation (config s) then setupBottomNavigation rootPath s else (None, s)),
        (\<lambda>s. if truthy (storageType (config s)) then setupStorage rootPath s else (None, s)),
        (\<lambda>s. if navigationSetup (config s) then setupNavigation rootPath s else (None, s)),
        (\<lambda>s. if truthy (stateManagement (config s)) then setupStateManagement rootPath s else (None, s)),
        createUtilityFiles rootPath,
        createTsConfig rootPath,
        console_log BoldGreen (check_mark @ '' Project structure created successfully!'')] s
   = run (plan rootPath cfg) s"
  unfolding plan_def
  apply (rule seq_cons_run [where cfg = cfg])
    apply (simp add: createBaseDirectories_run)
   apply (rule seq_cons_run [where cfg = cfg])
     apply (simp add: ensureNavigationDirectory_run)
    apply (rule seq_cons_run [where cfg = cfg])
      apply (simp add: setupBottomNavigation_run)
     apply (rule seq_cons_run [where cfg = cfg])
       apply (simp add: setupStorage_run)
      apply (rule seq_cons_run [where cfg = cfg])
        apply (simp add: setupNavigation_run)
       apply (rule seq_cons_run [where cfg = cfg])
         apply (simp add: setupStateManagement_run)
        apply (rule seq_cons_run [where cfg = cfg])
          apply (simp add: createUtilityFiles_run)
         apply (auto simp: createTsConfig_def run_def writeJsonSync_def console_log_def
                     split: prod.splits option.splits)
  done

lemma prompts_answered:
  assumes "answer_bottomNav ui = Inr b" and "answer_storageType ui = Inr st"
    and "answer_navigationSetup ui = Inr n" and "answer_stateManagement ui = Inr sm"
  shows "seq [promptBottomNavigation ui, promptStorageSetup ui,
              promptNavigationSetup ui, promptStateManagement ui] s =
         (None, s\<lparr>config := \<lparr>bottomNavigation = b, storageType = Some st,
                              navigationSetup = n, stateManagement = Some sm\<rparr>\<rparr>)"
  by (simp add: assms promptBottomNavigation_def promptStorageSetup_def
      promptNavigationSetup_def promptStateManagement_def)

lemma scaffold_try_split:
  "scaffold_try rootPath ui =
   seq ([promptBottomNavigation ui, promptStorageSetup ui,
         promptNavigationSetup ui, promptStateManagement ui] @
        [createBaseDirectories rootPath,
        ensureNavigationDirectory rootPath,
        (\<lambda>s. if bottomNavigation (config s) then setupBottomNavigation rootPath s else (None, s)),
        (\<lambda>s. if truthy (storageType (config s)) then setupStorage rootPath s else (None, s)),
        (\<lambda>s. if navigationSetup (config s) then setupNavigation rootPath s else (None, s)),
        (\<lambda>s. if truthy (stateManagement (config s)) then setupStateManagement rootPath s else (None, s)),
        createUtilityFiles rootPath,
        createTsConfig rootPath,
        console_log BoldGreen (check_mark @ '' Project structure created successfully!'')])"
  by (simp add: scaffold_try_def)

lemma scaffold_try_answered:
  assumes "answer_bottomNav ui = Inr b" and "answer_storageType ui = Inr st"
    and "answer_navigationSetup ui = Inr n" and "answer_stateManagement ui = Inr sm"
  shows "scaffold_try rootPath ui s =
         run (plan rootPath \<lparr>bottomNavigation = b, storageType = Some st,
                              navigationSetup = n, stateManagement = Some sm\<rparr>)
           (s\<lparr>config := \<lparr>bottomNavigation = b, storageType = Some st,
                              navigationSetup = n, stateManagement = Some sm\<rparr>\<rparr>)"
  by (simp only: scaffold_try_split seq_append prompts_answered [OF assms] prod.case option.case)
     (rule generators_run, simp)

lemma scaffold_try_unanswered:
  assumes "isl (answer_bottomNav ui) \<or> isl (answer_storageType ui)
         \<or> isl (answer_navigationSetup ui) \<or> isl (answer_stateManagement ui)"
  shows "\<exists>e cfg. scaffold_try rootPath ui s = (Some e, s\<lparr>config := cfg\<rparr>)"
proof -
  have triv: "s = s\<lparr>config := config s\<rparr>" by simp
  show ?thesis
    using assms unfolding scaffold_try_def
    by (cases "answer_bottomNav ui"; cases "answer_storageType ui";
        cases "answer_navigationSetup ui"; cases "answer_stateManagement ui")
       (auto simp: promptBottomNavigation_def promptStorageSetup_def
          promptNavigationSetup_def promptStateManagement_def intro: triv)
qed

subsection \<open>What a list of effects does\<close>

text \<open>
  The filesystem, the error and the calls of a run are those that the three functions
  \<^const>\<open>fs_run\<close>, \<^const>\<open>outcome\<close> and \<^const>\<open>issued\<close> compute from the list.
\<close>

lemma run_fs: "fs (snd (run es s)) = fs_run es (fs s)"
proof (induction es arbitrary: s)
  case Nil
  then show ?case by simp
next
  case (Cons e es)
  show ?case
  proof (cases e)
    case (Call c)
    then show ?thesis using Cons
      by (cases "apply_call c (fs s)") (simp_all add: run_Cons fs_call_def)
  next
    case (Print l)
    then show ?thesis using Cons by (simp add: run_Cons print_def)
  next
    case (Raise x)
    then show ?thesis by (simp add: run_Cons throw_def)
  qed
qed

lemma run_outcome: "fst (run es s) = outcome es (fs s)"
proof (induction es arbitrary: s)
  case Nil
  then show ?case by simp
next
  case (Cons e es)
  show ?case
  proof (cases e)
    case (Call c)
    then show ?thesis using Cons
      by (cases "apply_call c (fs s)") (simp_all add: run_Cons fs_call_def)
  next
    case (Print l)
    then show ?thesis using Cons by (simp add: run_Cons print_def)
  next
    case (Raise x)
    then show ?thesis by (simp add: run_Cons throw_def)
  qed
qed

lemma run_calls: "calls (snd (run es s)) = calls s @ issued es (fs s)"
proof (induction es arbitrary: s)
  case Nil
  then show ?case by simp
next
  case (Cons e es)
  show ?case
  proof (cases e)
    case (Call c)
    then show ?thesis using Cons
      by (cases "apply_call c (fs s)") (simp_all add: run_Cons fs_call_def)
  next
    case (Print l)
    then show ?thesis using Cons by (simp add: run_Cons print_def)
  next
    case (Raise x)
    then show ?thesis by (simp add: run_Cons throw_def)
  qed
qed

lemma fs_run_append:
  "fs_run (xs @ ys) f = (if outcome xs f = None then fs_run ys (fs_run xs f) else fs_run xs f)"
proof (induction xs arbitrary: f)
  case Nil
  then show ?case by simp
next
  case (Cons e xs)
  then show ?case by (cases e) (auto split: sum.splits)
qed

lemma outcome_append:
  "outcome (xs @ ys) f = (if outcome xs f = None then outcome ys (fs_run xs f) else outcome xs f)"
proof (induction xs arbitrary: f)
  case Nil
  then show ?case by simp
next
  case (Cons e xs)
  then show ?case by (cases e) (auto split: sum.splits)
qed

lemma calls_of_append: "calls_of (xs @ ys) = calls_of xs @ calls_of ys"
proof (induction xs)
  case Nil
  then show ?case by simp
next
  case (Cons e xs)
  then show ?case by (cases e) simp_all
qed

lemma calls_of_directories:
  "calls_of (concat (map (directory_effects root st label) ds)) = map (\<lambda>d. Mkdirp (path_join root d)) ds"
  by (induction ds) (simp_all add: directory_effects_def)

lemma issued_prefix: "prefix (issued es f) (calls_of es)"
proof (induction es arbitrary: f)
  case Nil
  then show ?case by simp
next
  case (Cons e es)
  then show ?case by (cases e) (auto split: sum.splits)
qed

lemma written_append: "written (xs @ ys) = written xs @ written ys"
proof (induction xs)
  case Nil
  then show ?case by simp
next
  case (Cons c xs)
  then show ?case by (cases c) simp_all
qed

lemma written_mkdirs: "written (map (\<lambda>d. Mkdirp (g d)) ds) = []"
  by (induction ds) simp_all

subsection \<open>The method scaffold\<close>

text \<open>
  The promise is always fulfilled. When every prompt is answered the run is the plan of
  the answers; when one is rejected the run only prints.
\<close>

lemma scaffold_fulfilled: "fst (scaffold rootPath ui s) = Fulfilled"
  by (simp add: scaffold_def split: prod.splits option.splits)

lemma answers_cases:
  "(\<exists>b st n sm. answer_bottomNav ui = Inr b \<and> answer_storageType ui = Inr st
       \<and> answer_navigationSetup ui = Inr n \<and> answer_stateManagement ui = Inr sm)
   \<or> isl (answer_bottomNav ui) \<or> isl (answer_storageType ui)
   \<or> isl (answer_navigationSetup ui) \<or> isl (answer_stateManagement ui)"
  by (cases "answer_bottomNav ui"; cases "answer_storageType ui";
      cases "answer_navigationSetup ui"; cases "answer_stateManagement ui") simp_all

lemma scaffold_answered:
  assumes "answer_bottomNav ui = Inr b" and "answer_storageType ui = Inr st"
    and "answer_navigationSetup ui = Inr n" and "answer_stateManagement ui = Inr sm"
  shows "fs (snd (scaffold rootPath ui s)) =
           fs_run (plan rootPath \<lparr>bottomNavigation = b, storageType = Some st,
                              navigationSetup = n, stateManagement = Some sm\<rparr>) (fs s)"
    and "calls (snd (scaffold rootPath ui s)) =
           calls s @ issued (plan rootPath \<lparr>bottomNavigation = b, storageType = Some st,
                              navigationSetup = n, stateManagement = Some sm\<rparr>) (fs s)"
proof -
  let ?cfg = "\<lparr>bottomNavigation = b, storageType = Some st,
                              navigationSetup = n, stateManagement = Some sm\<rparr>"
  let ?s0 = "snd (console_log BoldMagenta (rocket @ '' React Native Maker (Project Scaffolder)'') s)"
  let ?s1 = "?s0\<lparr>config := ?cfg\<rparr>"
  have tr: "scaffold_try rootPath ui ?s0 = run (plan rootPath ?cfg) ?s1"
    using assms by (rule scaffold_try_answered)
  have f: "fs ?s1 = fs s" and c: "calls ?s1 = calls s"
    by (simp_all add: console_log_def print_def)
  obtain r s' where r: "run (plan rootPath ?cfg) ?s1 = (r, s')" by (cases "run (plan rootPath ?cfg) ?s1")
  have "fs s' = fs_run (plan rootPath ?cfg) (fs s)"
    using run_fs [of "plan rootPath ?cfg" ?s1] r f by simp
  moreover have "calls s' = calls s @ issued (plan rootPath ?cfg) (fs s)"
    using run_calls [of "plan rootPath ?cfg" ?s1] r f c by simp
  moreover have "fs (snd (scaffold rootPath ui s)) = fs s'" "calls (snd (scaffold rootPath ui s)) = calls s'"
    unfolding scaffold_def tr r by (cases r; simp add: print_def)+
  ultimately show "fs (snd (scaffold rootPath ui s)) = fs_run (plan rootPath ?cfg) (fs s)"
    and "calls (snd (scaffold rootPath ui s)) = calls s @ issued (plan rootPath ?cfg) (fs s)"
    by simp_all
qed

lemma scaffold_unanswered:
  assumes "isl (answer_bottomNav ui) \<or> isl (answer_storageType ui)
         \<or> isl (answer_navigationSetup ui) \<or> isl (answer_stateManagement ui)"
  shows "\<exists>e cfg. snd (scaffold rootPath ui s) =
           s\<lparr>config := cfg,
             console := console s @
               [Log BoldMagenta (rocket @ '' React Native Maker (Project Scaffolder)''),
                LogError Red (cross_mark @ '' Scaffolding failed:'') e]\<rparr>"
proof -
  let ?s0 = "snd (console_log BoldMagenta (rocket @ '' React Native Maker (Project Scaffolder)'') s)"
  from scaffold_try_unanswered [OF assms, of rootPath ?s0] obtain e cfg where
    "scaffold_try rootPath ui ?s0 = (Some e, ?s0\<lparr>config := cfg\<rparr>)" by blast
  then have "snd (scaffold rootPath ui s) =
           s\<lparr>config := cfg,
             console := console s @
               [Log BoldMagenta (rocket @ '' React Native Maker (Project Scaffolder)''),
                LogError Red (cross_mark @ '' Scaffolding failed:'') e]\<rparr>"
    by (simp add: scaffold_def console_log_def print_def)
  then show ?thesis by blast
qed

lemma scaffold_fs:
  "fs (snd (scaffold rootPath
        \<lparr>answer_bottomNav = Inr b, answer_storageType = Inr st,
         answer_navigationSetup = Inr n, answer_stateManagement = Inr sm\<rparr> (constructor f))) =
   fs_run (plan rootPath \<lparr>bottomNavigation = b, storageType = Some st,
                          navigationSetup = n, stateManagement = Some sm\<rparr>) f"
  using scaffold_answered(1) [of "\<lparr>answer_bottomNav = Inr b, answer_storageType = Inr st,
         answer_navigationSetup = Inr n, answer_stateManagement = Inr sm\<rparr>" b st n sm rootPath
         "constructor f"]
  by (simp add: constructor_def)

subsection \<open>What a run leaves unchanged\<close>

text \<open>
  No call removes a directory or a file, and a file that no call writes keeps what it
  holds, also when the run breaks off.
\<close>

lemma apply_call_dirs: "apply_call c f = Inr f' \<Longrightarrow> dirs f \<subseteq> dirs f'"
  by (cases c) (auto simp: mkdirp_def write_file_def split: option.splits if_splits)

lemma apply_call_files:
  "apply_call c f = Inr f' \<Longrightarrow> p \<notin> set (written [c]) \<Longrightarrow> files f' p = files f p"
  by (cases c) (auto simp: mkdirp_def write_file_def split: option.splits if_splits)

lemma apply_call_dom: "apply_call c f = Inr f' \<Longrightarrow> dom (files f) \<subseteq> dom (files f')"
  by (cases c) (auto simp: mkdirp_def write_file_def split: option.splits if_splits)

lemma fs_run_dirs: "dirs f \<subseteq> dirs (fs_run es f)"
proof (induction es arbitrary: f)
  case Nil
  then show ?case by simp
next
  case (Cons e es)
  show ?case
  proof (cases e)
    case (Call c)
    show ?thesis
    proof (cases "apply_call c f")
      case (Inl a)
      then show ?thesis using Call by simp
    next
      case (Inr f')
      then have "dirs f \<subseteq> dirs f'" by (rule apply_call_dirs)
      also have "dirs f' \<subseteq> dirs (fs_run es f')" by (rule Cons.IH)
      finally show ?thesis using Call Inr by simp
    qed
  next
    case (Print l)
    then show ?thesis using Cons.IH by simp
  next
    case (Raise x)
    then show ?thesis by simp
  qed
qed

lemma fs_run_dom: "dom (files f) \<subseteq> dom (files (fs_run es f))"
proof (induction es arbitrary: f)
  case Nil
  then show ?case by simp
next
  case (Cons e es)
  show ?case
  proof (cases e)
    case (Call c)
    show ?thesis
    proof (cases "apply_call c f")
      case (Inl a)
      then show ?thesis using Call by simp
    next
      case (Inr f')
      then have "dom (files f) \<subseteq> dom (files f')" by (rule apply_call_dom)
      also have "dom (files f') \<subseteq> dom (files (fs_run es f'))" by (rule Cons.IH)
      finally show ?thesis using Call Inr by simp
    qed
  next
    case (Print l)
    then show ?thesis using Cons.IH by simp
  next
    case (Raise x)
    then show ?thesis by simp
  qed
qed

lemma fs_run_frame:
  "p \<notin> set (written (calls_of es)) \<Longrightarrow> files (fs_run es f) p = files f p"
proof (induction es arbitrary: f)
  case Nil
  then show ?case by simp
next
  case (Cons e es)
  show ?case
  proof (cases e)
    case (Call c)
    have rest: "p \<notin> set (written (calls_of es))" and here: "p \<notin> set (written [c])"
      using Cons.prems Call by (cases c; simp)+
    show ?thesis
    proof (cases "apply_call c f")
      case (Inl a)
      then show ?thesis using Call by simp
    next
      case (Inr f')
      then show ?thesis using Call Cons.IH [OF rest] apply_call_files [OF Inr here] by simp
    qed
  next
    case (Print l)
    then show ?thesis using Cons by simp
  next
    case (Raise x)
    then show ?thesis by simp
  qed
qed

lemma present_after: "apply_call c f = Inr f' \<Longrightarrow> present c f'"
  by (cases c) (auto simp: mkdirp_def write_file_def split: option.splits if_splits)

lemma present_fs_run: "present c f \<Longrightarrow> present c (fs_run es f)"
  using fs_run_dirs [of f es] fs_run_dom [of f es] by (cases c) auto

lemma issued_present:
  "list_all (\<lambda>c. present c (fs_run es f)) (butlast (issued es f))"
proof (induction es arbitrary: f)
  case Nil
  then show ?case by simp
next
  case (Cons e es)
  show ?case
  proof (cases e)
    case (Call c)
    show ?thesis
    proof (cases "apply_call c f")
      case (Inl a)
      then show ?thesis using Call by simp
    next
      case (Inr f')
      have "present c (fs_run es f')"
        using present_after [OF Inr] by (rule present_fs_run)
      then show ?thesis using Call Inr Cons.IH [of f'] by simp
    qed
  next
    case (Print l)
    then show ?thesis using Cons by simp
  next
    case (Raise x)
    then show ?thesis by simp
  qed
qed

subsection \<open>Running a list of effects twice\<close>

text \<open>
  A call that has succeeded succeeds again and changes nothing, and stays so while later
  calls that agree with it succeed. So a consistent list of effects, run on the filesystem
  that it left, passes the calls that succeeded without a change and stops where it
  stopped before. Every plan is consistent: it writes each path once.
\<close>

lemma stable_after: "apply_call c f = Inr f' \<Longrightarrow> apply_call c f' = Inr f'"
proof (cases c)
  case (Mkdirp p)
  assume a: "apply_call c f = Inr f'"
  then have n: "find (\<lambda>q. files f q \<noteq> None) (prefixes p) = None"
    and f': "f' = f\<lparr>dirs := dirs f \<union> set (prefixes p)\<rparr>"
    using Mkdirp by (auto simp: mkdirp_def split: option.splits)
  show ?thesis using n unfolding Mkdirp f' by (simp add: mkdirp_def Un_assoc)
next
  case (WriteFile p d)
  assume a: "apply_call c f = Inr f'"
  then show ?thesis using WriteFile by (auto simp: write_file_def split: if_splits option.splits)
qed

lemma stable_mkdirp:
  "mkdirp p f = Inr f \<longleftrightarrow> find (\<lambda>q. files f q \<noteq> None) (prefixes p) = None \<and> set (prefixes p) \<subseteq> dirs f"
proof -
  have "f\<lparr>dirs := dirs f \<union> set (prefixes p)\<rparr> = f \<longleftrightarrow> set (prefixes p) \<subseteq> dirs f"
  proof
    assume "f\<lparr>dirs := dirs f \<union> set (prefixes p)\<rparr> = f"
    then have "dirs (f\<lparr>dirs := dirs f \<union> set (prefixes p)\<rparr>) = dirs f" by simp
    then show "set (prefixes p) \<subseteq> dirs f" by auto
  next
    assume "set (prefixes p) \<subseteq> dirs f"
    then have "dirs f \<union> set (prefixes p) = dirs f" by auto
    then show "f\<lparr>dirs := dirs f \<union> set (prefixes p)\<rparr> = f" by simp
  qed
  then show ?thesis by (auto simp: mkdirp_def split: option.splits)
qed

lemma stable_write:
  "write_file p d f = Inr f \<longleftrightarrow> p \<notin> dirs f \<and> dirname p \<in> dirs f \<and> files f p = Some d"
proof -
  have "f\<lparr>files := (files f)(p \<mapsto> d)\<rparr> = f \<longleftrightarrow> files f p = Some d"
  proof
    assume "f\<lparr>files := (files f)(p \<mapsto> d)\<rparr> = f"
    then have "files (f\<lparr>files := (files f)(p \<mapsto> d)\<rparr>) p = files f p" by simp
    then show "files f p = Some d" by simp
  next
    assume "files f p = Some d"
    then have "(files f)(p \<mapsto> d) = files f" by (auto simp: fun_eq_iff)
    then show "f\<lparr>files := (files f)(p \<mapsto> d)\<rparr> = f" by simp
  qed
  then show ?thesis by (auto simp: write_file_def split: option.splits)
qed

lemma stable_preserved:
  assumes st: "apply_call c f = Inr f" and step: "apply_call c' f = Inr f'" and ag: "agree c c'"
  shows "apply_call c f' = Inr f'"
proof (cases c)
  case (Mkdirp p)
  with st have n: "find (\<lambda>q. files f q \<noteq> None) (prefixes p) = None" and sub: "set (prefixes p) \<subseteq> dirs f"
    by (simp_all add: stable_mkdirp)
  show ?thesis
  proof (cases c')
    case (Mkdirp q)
    with step have "f' = f\<lparr>dirs := dirs f \<union> set (prefixes q)\<rparr>"
      by (auto simp: mkdirp_def split: option.splits)
    then show ?thesis using n sub \<open>c = Mkdirp p\<close> by (auto simp: stable_mkdirp)
  next
    case (WriteFile q d)
    with step have q: "q \<notin> dirs f" and f': "f' = f\<lparr>files := (files f)(q \<mapsto> d)\<rparr>"
      by (auto simp: write_file_def split: if_splits option.splits)
    from q sub have "q \<notin> set (prefixes p)" by auto
    then have "find (\<lambda>r. files f' r \<noteq> None) (prefixes p) = None"
      using n unfolding f' by (auto simp: find_None_iff)
    then show ?thesis using sub \<open>c = Mkdirp p\<close> f' by (simp add: stable_mkdirp)
  qed
next
  case (WriteFile p d)
  with st have p: "p \<notin> dirs f" and par: "dirname p \<in> dirs f" and d: "files f p = Some d"
    by (simp_all add: stable_write)
  show ?thesis
  proof (cases c')
    case (Mkdirp q)
    with step have n: "find (\<lambda>r. files f r \<noteq> None) (prefixes q) = None"
      and f': "f' = f\<lparr>dirs := dirs f \<union> set (prefixes q)\<rparr>"
      by (auto simp: mkdirp_def split: option.splits)
    from n d have "p \<notin> set (prefixes q)" by (auto simp: find_None_iff)
    then show ?thesis using p par d \<open>c = WriteFile p d\<close> unfolding f' by (simp add: stable_write)
  next
    case w: (WriteFile q d')
    with step have f': "f' = f\<lparr>files := (files f)(q \<mapsto> d')\<rparr>"
      by (auto simp: write_file_def split: if_splits option.splits)
    from ag w WriteFile have "p \<noteq> q \<or> d = d'" by simp
    then show ?thesis using p par d \<open>c = WriteFile p d\<close> unfolding f' by (auto simp: stable_write)
  qed
qed

lemma stable_fs_run:
  "apply_call c f = Inr f \<Longrightarrow> list_all (agree c) (calls_of es) \<Longrightarrow>
   apply_call c (fs_run es f) = Inr (fs_run es f)"
proof (induction es arbitrary: f)
  case Nil
  then show ?case by simp
next
  case (Cons e es)
  show ?case
  proof (cases e)
    case (Call c')
    show ?thesis
    proof (cases "apply_call c' f")
      case (Inl a)
      then show ?thesis using Call Cons.prems by simp
    next
      case (Inr f')
      have "apply_call c f' = Inr f'"
        using Cons.prems Call by (intro stable_preserved [OF _ Inr]) simp_all
      then show ?thesis using Cons.IH [of f'] Cons.prems Call Inr by simp
    qed
  next
    case (Print l)
    then show ?thesis using Cons by simp
  next
    case (Raise x)
    then show ?thesis using Cons by simp
  qed
qed

lemma fs_run_again:
  "consistent (calls_of es) \<Longrightarrow>
   \<exists>A B. es = A @ B \<and> fs_run A (fs_run es f) = fs_run es f \<and> outcome A (fs_run es f) = None
        \<and> fs_run B (fs_run es f) = fs_run es f"
proof (induction es arbitrary: f)
  case Nil
  then show ?case by simp
next
  case (Cons e es)
  show ?case
  proof (cases e)
    case (Call c)
    show ?thesis
    proof (cases "apply_call c f")
      case (Inl a)
      then have "fs_run (e # es) f = f" using Call by simp
      then have "e # es = [] @ (e # es) \<and> fs_run [] (fs_run (e # es) f) = fs_run (e # es) f
         \<and> outcome [] (fs_run (e # es) f) = None
         \<and> fs_run (e # es) (fs_run (e # es) f) = fs_run (e # es) f"
        by simp
      then show ?thesis by blast
    next
      case (Inr f')
      have cons: "consistent (calls_of es)" and ag: "list_all (agree c) (calls_of es)"
        using Cons.prems Call by simp_all
      from Cons.IH [OF cons, of f'] obtain A B where
        es: "es = A @ B"
        and A: "fs_run A (fs_run es f') = fs_run es f'" "outcome A (fs_run es f') = None"
        and B: "fs_run B (fs_run es f') = fs_run es f'"
        by blast
      have run: "fs_run (e # es) f = fs_run es f'" using Call Inr by simp
      have "apply_call c f' = Inr f'" using Inr by (rule stable_after)
      then have c: "apply_call c (fs_run es f') = Inr (fs_run es f')"
        using ag by (rule stable_fs_run)
      have "e # es = (e # A) @ B" using es by simp
      moreover have "fs_run (e # A) (fs_run (e # es) f) = fs_run (e # es) f"
        using A c Call unfolding run by simp
      moreover have "outcome (e # A) (fs_run (e # es) f) = None"
        using A c Call unfolding run by simp
      moreover have "fs_run B (fs_run (e # es) f) = fs_run (e # es) f"
        using B unfolding run .
      ultimately show ?thesis by blast
    qed
  next
    case (Print l)
    have cons: "consistent (calls_of es)" using Cons.prems Print by simp
    from Cons.IH [OF cons, of f] obtain A B where
      es: "es = A @ B"
      and A: "fs_run A (fs_run es f) = fs_run es f" "outcome A (fs_run es f) = None"
      and B: "fs_run B (fs_run es f) = fs_run es f"
      by blast
    have run: "fs_run (e # es) f = fs_run es f" using Print by simp
    have "e # es = (e # A) @ B" using es by simp
    moreover have "fs_run (e # A) (fs_run (e # es) f) = fs_run (e # es) f"
      using A Print unfolding run by simp
    moreover have "outcome (e # A) (fs_run (e # es) f) = None"
      using A Print unfolding run by simp
    moreover have "fs_run B (fs_run (e # es) f) = fs_run (e # es) f"
      using B unfolding run .
    ultimately show ?thesis by blast
  next
    case (Raise x)
    then have "e # es = [] @ (e # es) \<and> fs_run [] (fs_run (e # es) f) = fs_run (e # es) f
         \<and> outcome [] (fs_run (e # es) f) = None
         \<and> fs_run (e # es) (fs_run (e # es) f) = fs_run (e # es) f"
      by simp
    then show ?thesis by blast
  qed
qed

lemma fs_run_idempotent:
  assumes "consistent (calls_of es)"
  shows "fs_run es (fs_run es f) = fs_run es f"
proof -
  from fs_run_again [OF assms, of f] obtain A B where
    es: "es = A @ B"
    and A: "fs_run A (fs_run es f) = fs_run es f" "outcome A (fs_run es f) = None"
    and B: "fs_run B (fs_run es f) = fs_run es f"
    by blast
  have "fs_run (A @ B) (fs_run es f) = fs_run B (fs_run A (fs_run es f))"
    using A(2) by (simp add: fs_run_append)
  then show ?thesis using A(1) B es by simp
qed

lemma consistent_by_table:
  "(\<And>p d. WriteFile p d \<in> set cs \<Longrightarrow> g p = Some d) \<Longrightarrow> consistent cs"
proof (induction cs)
  case Nil
  then show ?case by simp
next
  case (Cons c cs)
  have rest: "consistent cs" using Cons by simp
  have "list_all (agree c) cs"
  proof (cases c)
    case (Mkdirp p)
    then show ?thesis by (simp add: list_all_iff)
  next
    case (WriteFile p d)
    have "agree (WriteFile p d) c'" if "c' \<in> set cs" for c'
    proof (cases c')
      case (Mkdirp q)
      then show ?thesis by simp
    next
      case w: (WriteFile q d')
      have "g q = Some d'" using that w Cons.prems [of q d'] by simp
      moreover have "g p = Some d" using WriteFile Cons.prems [of p d] by simp
      ultimately show ?thesis using w by auto
    qed
    then show ?thesis using WriteFile by (simp add: list_all_iff)
  qed
  with rest show ?case by simp
qed

lemma distinct_every_file:
  "distinct (map fst (map (\<lambda>(rel, d). (path_join root rel, d)) every_file))"
  by (simp add: every_file_def path_join_def)

lemma table_storage_writes:
  "list_all (\<lambda>c. case c of Mkdirp p \<Rightarrow> True
       | WriteFile p d \<Rightarrow> (p, d) \<in> set (map (\<lambda>(rel, d). (path_join root rel, d)) every_file))
     (calls_of (table_effects root label storageFiles choice))"
  by (simp add: table_effects_def property_def storageFiles_def entry_effects_def every_file_def)

lemma table_stateManagement_writes:
  "list_all (\<lambda>c. case c of Mkdirp p \<Rightarrow> True
       | WriteFile p d \<Rightarrow> (p, d) \<in> set (map (\<lambda>(rel, d). (path_join root rel, d)) every_file))
     (calls_of (table_effects root label stateManagementFiles choice))"
  by (simp add: table_effects_def property_def stateManagementFiles_def entry_effects_def every_file_def)

lemma list_all_mkdirs:
  "list_all (\<lambda>c. case c of Mkdirp p \<Rightarrow> True | WriteFile p d \<Rightarrow> P p d) (map (\<lambda>d. Mkdirp (g d)) ds)"
  by (induction ds) simp_all

lemma plan_writes:
  "list_all (\<lambda>c. case c of Mkdirp p \<Rightarrow> True
       | WriteFile p d \<Rightarrow> (p, d) \<in> set (map (\<lambda>(rel, d). (path_join root rel, d)) every_file))
     (calls_of (plan root cfg))"
proof -
  let ?ok = "\<lambda>c. case c of Mkdirp p \<Rightarrow> True
       | WriteFile p d \<Rightarrow> (p, d) \<in> set (map (\<lambda>(rel, d). (path_join root rel, d)) every_file)"
  let ?bottom = "if bottomNavigation cfg
        then concat (map (directory_effects root Blue ''Created Bottom Nav directory: '')
                      bottomNavDirectories)
             @ concat (map (\<lambda>file.
                 [Call (WriteFile (path_join root file) (Text generateBottomTabContent)),
                  Print (Log Yellow (''Created Bottom Nav file: '' @ file))]) bottomNavFiles)
        else []"
  let ?storage = "if truthy (storageType cfg)
        then table_effects root ''Created storage file: '' storageFiles (storageType cfg)
        else []"
  let ?nav = "if navigationSetup cfg
        then concat (map (entry_effects root Magenta ''Created navigation file: '')
                      navigationFiles)
        else []"
  let ?sm = "if truthy (stateManagement cfg)
        then table_effects root ''Created state management file: '' stateManagementFiles
               (stateManagement cfg)
        else []"
  let ?util = "concat (map (entry_effects root Yellow ''Created utility file: '') utilFiles)"
  let ?ts = "[Call (WriteFile (path_join root ''tsconfig.json'') (Json defaultConfig)),
        Print (Log Blue ''Created/Updated tsconfig.json''),
        Print (Log BoldGreen (check_mark @ '' Project structure created successfully!''))]"
  have base: "list_all ?ok (map (\<lambda>d. Mkdirp (path_join root d)) baseDirectories)"
    by (rule list_all_mkdirs)
  have bottom: "list_all ?ok (calls_of ?bottom)"
    by (simp add: every_file_def bottomNavFiles_def bottomNavDirectories_def directory_effects_def)
  have storage: "list_all ?ok (calls_of ?storage)"
    using table_storage_writes [of root "''Created storage file: ''" "storageType cfg"]
    by (cases "truthy (storageType cfg)") simp_all
  have nav: "list_all ?ok (calls_of ?nav)"
    by (simp add: every_file_def navigationFiles_def entry_effects_def)
  have sm: "list_all ?ok (calls_of ?sm)"
    using table_stateManagement_writes [of root "''Created state management file: ''" "stateManagement cfg"]
    by (cases "truthy (stateManagement cfg)") simp_all
  have util: "list_all ?ok (calls_of ?util)"
    by (simp add: every_file_def utilFiles_def entry_effects_def)
  have ts: "list_all ?ok (calls_of ?ts)"
    by (simp add: every_file_def)
  have split: "calls_of (plan root cfg) =
      map (\<lambda>d. Mkdirp (path_join root d)) baseDirectories @
      (Mkdirp (path_join root ''src/navigation'') #
       calls_of ?bottom @ calls_of ?storage @ calls_of ?nav @ calls_of ?sm @ calls_of ?util @ calls_of ?ts)"
    unfolding plan_def calls_of_append calls_of_directories by simp
  have rest: "list_all ?ok
     (calls_of ?bottom @ calls_of ?storage @ calls_of ?nav @ calls_of ?sm @ calls_of ?util @ calls_of ?ts)"
    using bottom storage nav sm util ts by (simp only: list_all_append simp_thms)
  have "list_all ?ok (Mkdirp (path_join root ''src/navigation'') #
       calls_of ?bottom @ calls_of ?storage @ calls_of ?nav @ calls_of ?sm @ calls_of ?util @ calls_of ?ts)"
    using rest by (simp only: list.pred_inject fscall.case simp_thms)
  with base show ?thesis
    unfolding split by (simp only: list_all_append simp_thms)
qed

lemma consistent_plan: "consistent (calls_of (plan root cfg))"
proof (rule consistent_by_table)
  fix p d
  assume "WriteFile p d \<in> set (calls_of (plan root cfg))"
  then have "(p, d) \<in> set (map (\<lambda>(rel, d). (path_join root rel, d)) every_file)"
    using plan_writes [of root cfg] by (auto simp: list_all_iff)
  then show "map_of (map (\<lambda>(rel, d). (path_join root rel, d)) every_file) p = Some d"
    using distinct_every_file by (rule_tac map_of_is_SomeI)
qed

subsection \<open>Parents first\<close>

text \<open>
  The calls that a run issues are a prefix of the calls of its plan, and in every plan
  each file is written after its parent has been ensured.
\<close>

lemma pcf_mono:
  "parents_created_first D cs \<Longrightarrow> D \<subseteq> D' \<Longrightarrow> parents_created_first D' cs"
proof (induction cs arbitrary: D D')
  case Nil
  then show ?case by simp
next
  case (Cons c cs)
  show ?case
  proof (cases c)
    case (Mkdirp p)
    have "D \<union> set (prefixes p) \<subseteq> D' \<union> set (prefixes p)" using Cons.prems by auto
    then show ?thesis using Cons Mkdirp by auto
  next
    case (WriteFile p d)
    then show ?thesis using Cons by auto
  qed
qed

lemma pcf_append:
  "parents_created_first D xs \<Longrightarrow> parents_created_first D ys \<Longrightarrow>
   parents_created_first D (xs @ ys)"
proof (induction xs arbitrary: D)
  case Nil
  then show ?case by simp
next
  case (Cons c xs)
  show ?case
  proof (cases c)
    case (Mkdirp p)
    have "parents_created_first (D \<union> set (prefixes p)) ys"
      using Cons.prems(2) by (rule pcf_mono) auto
    then show ?thesis using Cons Mkdirp by simp
  next
    case (WriteFile p d)
    then show ?thesis using Cons by simp
  qed
qed

lemma pcf_prefix:
  "prefix xs ys \<Longrightarrow> parents_created_first D ys \<Longrightarrow> parents_created_first D xs"
proof (induction xs arbitrary: ys D)
  case Nil
  then show ?case by simp
next
  case (Cons c xs)
  then obtain zs where ys: "ys = c # zs" and p: "prefix xs zs"
    by (cases ys) auto
  show ?case
  proof (cases c)
    case (Mkdirp q)
    then show ?thesis using Cons.IH [OF p] Cons.prems(2) ys by simp
  next
    case (WriteFile q d)
    then show ?thesis using Cons.IH [OF p] Cons.prems(2) ys by simp
  qed
qed

lemma pcf_mkdirs: "parents_created_first D (map (\<lambda>d. Mkdirp (g d)) ds)"
  by (induction ds arbitrary: D) simp_all

lemma pcf_entries:
  "parents_created_first D (calls_of (concat (map (entry_effects root st label) es)))"
proof (induction es arbitrary: D)
  case Nil
  then show ?case by simp
next
  case (Cons e es)
  then show ?case by (simp add: entry_effects_def)
qed

lemma pcf_table:
  "parents_created_first D (calls_of (table_effects root label table choice))"
  by (simp add: table_effects_def pcf_entries split: option.splits)

lemma path_join_navigation: "path_join root ''src/navigation'' = root @ [''src'', ''navigation'']"
  by (simp add: path_join_def)

lemma pcf_plan: "parents_created_first {} (calls_of (plan root cfg))"
proof -
  let ?D = "set (prefixes (root @ [''src'', ''navigation'']))"
  let ?bottom = "if bottomNavigation cfg
        then concat (map (directory_effects root Blue ''Created Bottom Nav directory: '')
                      bottomNavDirectories)
             @ concat (map (\<lambda>file.
                 [Call (WriteFile (path_join root file) (Text generateBottomTabContent)),
                  Print (Log Yellow (''Created Bottom Nav file: '' @ file))]) bottomNavFiles)
        else []"
  let ?storage = "if truthy (storageType cfg)
        then table_effects root ''Created storage file: '' storageFiles (storageType cfg)
        else []"
  let ?nav = "if navigationSetup cfg
        then concat (map (entry_effects root Magenta ''Created navigation file: '')
                      navigationFiles)
        else []"
  let ?sm = "if truthy (stateManagement cfg)
        then table_effects root ''Created state management file: '' stateManagementFiles
               (stateManagement cfg)
        else []"
  let ?util = "concat (map (entry_effects root Yellow ''Created utility file: '') utilFiles)"
  let ?ts = "[Call (WriteFile (path_join root ''tsconfig.json'') (Json defaultConfig)),
        Print (Log Blue ''Created/Updated tsconfig.json''),
        Print (Log BoldGreen (check_mark @ '' Project structure created successfully!''))]"
  have bottom: "parents_created_first ?D (calls_of ?bottom)"
    by (simp add: bottomNavDirectories_def bottomNavFiles_def directory_effects_def
        path_join_def dirname_def butlast_append)
  have storage: "parents_created_first ?D (calls_of ?storage)"
    by (simp add: pcf_table)
  have nav: "parents_created_first ?D (calls_of ?nav)"
    by (simp add: pcf_entries)
  have sm: "parents_created_first ?D (calls_of ?sm)"
    by (simp add: pcf_table)
  have util: "parents_created_first ?D (calls_of ?util)"
    by (rule pcf_entries)
  have ts: "parents_created_first ?D (calls_of ?ts)"
    by (simp add: path_join_def dirname_def butlast_append)
  have rest: "parents_created_first ?D
     (calls_of ?bottom @ calls_of ?storage @ calls_of ?nav @ calls_of ?sm @ calls_of ?util @ calls_of ?ts)"
    by (intro pcf_append bottom storage nav sm util ts)
  have split: "calls_of (plan root cfg) =
      map (\<lambda>d. Mkdirp (path_join root d)) baseDirectories @
      (Mkdirp (root @ [''src'', ''navigation'']) #
       calls_of ?bottom @ calls_of ?storage @ calls_of ?nav @ calls_of ?sm @ calls_of ?util @ calls_of ?ts)"
    unfolding plan_def calls_of_append calls_of_directories path_join_navigation by simp
  have "parents_created_first {} (Mkdirp (root @ [''src'', ''navigation'']) #
       calls_of ?bottom @ calls_of ?storage @ calls_of ?nav @ calls_of ?sm @ calls_of ?util @ calls_of ?ts)"
    using rest by simp
  then show ?thesis
    unfolding split by (intro pcf_append pcf_mkdirs)
qed

text \<open>
  The calls of a run account for its filesystem. Where the plan ensures a parent before
  it writes a file, the parent exists when the file is written, because no call removes
  a directory. In a consistent plan every call that has succeeded, made once more at
  the end of the run, succeeds and changes nothing.
\<close>

lemma replay_issued: "replay (issued es f) f = fs_run es f"
proof (induction es arbitrary: f)
  case Nil
  then show ?case by simp
next
  case (Cons e es)
  then show ?case by (cases e) (auto split: sum.splits)
qed

lemma parents_exist_issued:
  "parents_created_first D (calls_of es) \<Longrightarrow> D \<subseteq> dirs f \<Longrightarrow> parents_exist (issued es f) f"
proof (induction es arbitrary: D f)
  case Nil
  then show ?case by simp
next
  case (Cons e es)
  show ?case
  proof (cases e)
    case (Call c)
    show ?thesis
    proof (cases c)
      case (Mkdirp p)
      have rest: "parents_created_first (D \<union> set (prefixes p)) (calls_of es)"
        using Cons.prems(1) Call Mkdirp by simp
      show ?thesis
      proof (cases "mkdirp p f")
        case (Inl a)
        then show ?thesis using Call Mkdirp by simp
      next
        case (Inr f')
        then have "dirs f' = dirs f \<union> set (prefixes p)"
          by (auto simp: mkdirp_def split: option.splits)
        then have "D \<union> set (prefixes p) \<subseteq> dirs f'" using Cons.prems(2) by auto
        with rest have "parents_exist (issued es f') f'" by (rule Cons.IH)
        then show ?thesis using Call Mkdirp Inr by simp
      qed
    next
      case (WriteFile p d)
      have here: "dirname p \<in> D" and rest: "parents_created_first D (calls_of es)"
        using Cons.prems(1) Call WriteFile by simp_all
      show ?thesis
      proof (cases "write_file p d f")
        case (Inl a)
        then show ?thesis using Call WriteFile here Cons.prems(2) by auto
      next
        case (Inr f')
        then have "dirs f' = dirs f"
          by (auto simp: write_file_def split: option.splits if_splits)
        then have "D \<subseteq> dirs f'" using Cons.prems(2) by simp
        with rest have "parents_exist (issued es f') f'" by (rule Cons.IH)
        then show ?thesis using Call WriteFile Inr here Cons.prems(2) by auto
      qed
    qed
  next
    case (Print l)
    then show ?thesis using Cons by simp
  next
    case (Raise x)
    then show ?thesis by simp
  qed
qed

lemma issued_stable:
  "consistent (calls_of es) \<Longrightarrow>
   list_all (\<lambda>c. apply_call c (fs_run es f) = Inr (fs_run es f)) (butlast (issued es f))"
proof (induction es arbitrary: f)
  case Nil
  then show ?case by simp
next
  case (Cons e es)
  show ?case
  proof (cases e)
    case (Call c)
    have cons: "consistent (calls_of es)" and ag: "list_all (agree c) (calls_of es)"
      using Cons.prems Call by simp_all
    show ?thesis
    proof (cases "apply_call c f")
      case (Inl a)
      then show ?thesis using Call by simp
    next
      case (Inr f')
      have "apply_call c f' = Inr f'" using Inr by (rule stable_after)
      then have "apply_call c (fs_run es f') = Inr (fs_run es f')"
        using ag by (rule stable_fs_run)
      then show ?thesis using Call Inr Cons.IH [OF cons, of f'] by simp
    qed
  next
    case (Print l)
    then show ?thesis using Cons by simp
  next
    case (Raise x)
    then show ?thesis by simp
  qed
qed

subsection \<open>Runs in an empty project\<close>

text \<open>
  In an empty project no file is in the way of the base directories; what follows them
  is evaluated for the configurations of the claims.
\<close>

lemma mkdirp_ok:
  "dom (files f) \<inter> set (prefixes p) = {} \<Longrightarrow>
   mkdirp p f = Inr (f\<lparr>dirs := dirs f \<union> set (prefixes p)\<rparr>)"
proof -
  assume "dom (files f) \<inter> set (prefixes p) = {}"
  then have "find (\<lambda>q. files f q \<noteq> None) (prefixes p) = None"
    by (auto simp: find_None_iff)
  then show ?thesis by (simp add: mkdirp_def)
qed

lemma directories_run:
  "files f = Map.empty \<Longrightarrow>
   outcome (concat (map (directory_effects root st label) ds)) f = None \<and>
   fs_run (concat (map (directory_effects root st label) ds)) f =
     f\<lparr>dirs := dirs f \<union> (\<Union>d\<in>set ds. set (prefixes (path_join root d)))\<rparr>"
proof (induction ds arbitrary: f)
  case Nil
  then show ?case by simp
next
  case (Cons d ds)
  let ?f = "f\<lparr>dirs := dirs f \<union> set (prefixes (path_join root d))\<rparr>"
  have m: "mkdirp (path_join root d) f = Inr ?f"
    using Cons.prems by (simp add: mkdirp_ok)
  have "files ?f = Map.empty" using Cons.prems by simp
  from Cons.IH [OF this] m show ?case
    by (simp add: directory_effects_def Un_assoc)
qed

lemma all_off:
  "outcome (plan root \<lparr>bottomNavigation = False, storageType = Some ''None'',
              navigationSetup = False, stateManagement = Some ''None''\<rparr>) (empty_project root) = None"
  "fs_run (plan root \<lparr>bottomNavigation = False, storageType = Some ''None'',
              navigationSetup = False, stateManagement = Some ''None''\<rparr>) (empty_project root) =
   \<lparr>dirs = set (prefixes root)
         \<union> (\<Union>d\<in>set baseDirectories. set (prefixes (path_join root d)))
         \<union> set (prefixes (path_join root ''src/navigation'')),
    files = [path_join root ''src/utils/MediaHandler.ts'' \<mapsto> Text generateMediaHandlerContent,
             path_join root ''src/utils/responsive-screen.ts'' \<mapsto> Text generateResponsiveScreenContent,
             path_join root ''tsconfig.json'' \<mapsto> Json defaultConfig]\<rparr>"
proof -
  let ?base = "concat (map (directory_effects root Green ''Created directory: '') baseDirectories)"
  let ?rest = "[Call (Mkdirp (path_join root ''src/navigation'')),
        Print (Log Green ''Ensured navigation directory exists: src/navigation'')]
     @ concat (map (entry_effects root Yellow ''Created utility file: '') utilFiles)
     @ [Call (WriteFile (path_join root ''tsconfig.json'') (Json defaultConfig)),
        Print (Log Blue ''Created/Updated tsconfig.json''),
        Print (Log BoldGreen (check_mark @ '' Project structure created successfully!''))]"
  have p: "plan root \<lparr>bottomNavigation = False, storageType = Some ''None'',
              navigationSetup = False, stateManagement = Some ''None''\<rparr> = ?base @ ?rest"
    by (simp add: plan_def table_effects_def property_def storageFiles_def
        stateManagementFiles_def Object_prototype_def)
  have e: "files (empty_project root) = Map.empty" by (simp add: empty_project_def)
  note b = directories_run [OF e, of root Green "''Created directory: ''" baseDirectories]
  let ?f = "(empty_project root)\<lparr>dirs := dirs (empty_project root)
               \<union> (\<Union>d\<in>set baseDirectories. set (prefixes (path_join root d)))\<rparr>"
  have r: "outcome ?rest ?f = None \<and> fs_run ?rest ?f =  \<lparr>dirs = set (prefixes root)
         \<union> (\<Union>d\<in>set baseDirectories. set (prefixes (path_join root d)))
         \<union> set (prefixes (path_join root ''src/navigation'')),
    files = [path_join root ''src/utils/MediaHandler.ts'' \<mapsto> Text generateMediaHandlerContent,
             path_join root ''src/utils/responsive-screen.ts'' \<mapsto> Text generateResponsiveScreenContent,
             path_join root ''tsconfig.json'' \<mapsto> Json defaultConfig]\<rparr>"
    by (simp add: empty_project_def utilFiles_def entry_effects_def mkdirp_ok write_file_def
         path_join_def dirname_def butlast_append baseDirectories_def Un_ac)
  show "outcome (plan root \<lparr>bottomNavigation = False, storageType = Some ''None'',
              navigationSetup = False, stateManagement = Some ''None''\<rparr>) (empty_project root) = None"
    using b r by (simp only: p outcome_append) simp
  show "fs_run (plan root \<lparr>bottomNavigation = False, storageType = Some ''None'',
              navigationSetup = False, stateManagement = Some ''None''\<rparr>) (empty_project root) =
   \<lparr>dirs = set (prefixes root)
         \<union> (\<Union>d\<in>set baseDirectories. set (prefixes (path_join root d)))
         \<union> set (prefixes (path_join root ''src/navigation'')),
    files = [path_join root ''src/utils/MediaHandler.ts'' \<mapsto> Text generateMediaHandlerContent,
             path_join root ''src/utils/responsive-screen.ts'' \<mapsto> Text generateResponsiveScreenContent,
             path_join root ''tsconfig.json'' \<mapsto> Json defaultConfig]\<rparr>"
    using b r by (simp only: p fs_run_append) simp
qed

lemma base_done:
  "outcome (concat (map (directory_effects root Green ''Created directory: '') baseDirectories) @ es)
     (empty_project root) =
   outcome es \<lparr>dirs = set (prefixes root) \<union> (\<Union>d\<in>set baseDirectories. set (prefixes (path_join root d))),
               files = Map.empty\<rparr>"
  "fs_run (concat (map (directory_effects root Green ''Created directory: '') baseDirectories) @ es)
     (empty_project root) =
   fs_run es \<lparr>dirs = set (prefixes root) \<union> (\<Union>d\<in>set baseDirectories. set (prefixes (path_join root d))),
              files = Map.empty\<rparr>"
proof -
  have e: "files (empty_project root) = Map.empty" by (simp add: empty_project_def)
  note b = directories_run [OF e, of root Green "''Created directory: ''" baseDirectories]
  show "outcome (concat (map (directory_effects root Green ''Created directory: '') baseDirectories) @ es)
     (empty_project root) =
   outcome es \<lparr>dirs = set (prefixes root) \<union> (\<Union>d\<in>set baseDirectories. set (prefixes (path_join root d))),
               files = Map.empty\<rparr>"
    using b by (simp only: outcome_append) (simp add: empty_project_def)
  show "fs_run (concat (map (directory_effects root Green ''Created directory: '') baseDirectories) @ es)
     (empty_project root) =
   fs_run es \<lparr>dirs = set (prefixes root) \<union> (\<Union>d\<in>set baseDirectories. set (prefixes (path_join root d))),
              files = Map.empty\<rparr>"
    using b by (simp only: fs_run_append) (simp add: empty_project_def)
qed

lemma written_table_storage:
  "set (written (calls_of (table_effects root label storageFiles choice)))
   \<subseteq> {path_join root ''src/utils/asyncStorage.ts'', path_join root ''src/utils/mmkvStorage.ts''}"
  by (simp add: table_effects_def property_def storageFiles_def entry_effects_def)


lemma storage_effects:
  "table_effects root label storageFiles (Some ''Async Storage'') =
   entry_effects root Cyan label
     \<lparr>path = ''src/utils/asyncStorage.ts'', content = generateAsyncStorageContent\<rparr>"
  "table_effects root label storageFiles (Some ''React Native MMKV'') =
   entry_effects root Cyan label
     \<lparr>path = ''src/utils/mmkvStorage.ts'', content = generateMMKVStorageContent\<rparr>"
  "table_effects root label storageFiles (Some ''None'') = []"
  by (simp_all add: table_effects_def property_def storageFiles_def Object_prototype_def)

lemma redux_effects:
  "table_effects root label stateManagementFiles (Some ''Redux Toolkit'') =
   entry_effects root Cyan label \<lparr>path = ''src/store/index.ts'', content = store_index_ts\<rparr>
   @ entry_effects root Cyan label
       \<lparr>path = ''src/store/slices/exampleSlice.ts'', content = exampleSlice_ts\<rparr>"
  by (simp add: table_effects_def property_def stateManagementFiles_def)



lemma redux_run:
  fixes root b st n
  assumes st: "st \<in> {''Async Storage'', ''React Native MMKV'', ''None''}"
  defines "cfg \<equiv> \<lparr>bottomNavigation = b, storageType = Some st,
                    navigationSetup = n, stateManagement = Some ''Redux Toolkit''\<rparr>"
  shows "files (fs_run (plan root cfg) (empty_project root)) (path_join root ''src/store/index.ts'')
           = Some (Text store_index_ts)"
    and "files (fs_run (plan root cfg) (empty_project root)) (path_join root ''src/store/slices/exampleSlice.ts'')
           = Some (Text exampleSlice_ts)"
    and "files (fs_run (plan root cfg) (empty_project root)) (path_join root ''src/store/zustand/exampleStore.ts'')
           = None"
    and "files (fs_run (plan root cfg) (empty_project root)) (path_join root ''src/context/providers/ExampleProvider.tsx'')
           = None"
proof -
  let ?base = "concat (map (directory_effects root Green ''Created directory: '') baseDirectories)"
  let ?pre = "[Call (Mkdirp (path_join root ''src/navigation'')),
        Print (Log Green ''Ensured navigation directory exists: src/navigation'')]
     @ (if b
        then concat (map (directory_effects root Blue ''Created Bottom Nav directory: '')
                      bottomNavDirectories)
             @ concat (map (\<lambda>file.
                 [Call (WriteFile (path_join root file) (Text generateBottomTabContent)),
                  Print (Log Yellow (''Created Bottom Nav file: '' @ file))]) bottomNavFiles)
        else [])
     @ table_effects root ''Created storage file: '' storageFiles (Some st)
     @ (if n
        then concat (map (entry_effects root Magenta ''Created navigation file: '')
                      navigationFiles)
        else [])
     @ entry_effects root Cyan ''Created state management file: ''
         \<lparr>path = ''src/store/index.ts'', content = store_index_ts\<rparr>
     @ entry_effects root Cyan ''Created state management file: ''
         \<lparr>path = ''src/store/slices/exampleSlice.ts'', content = exampleSlice_ts\<rparr>"
  let ?post = "concat (map (entry_effects root Yellow ''Created utility file: '') utilFiles)
     @ [Call (WriteFile (path_join root ''tsconfig.json'') (Json defaultConfig)),
        Print (Log Blue ''Created/Updated tsconfig.json''),
        Print (Log BoldGreen (check_mark @ '' Project structure created successfully!''))]"
  let ?fB = "\<lparr>dirs = set (prefixes root) \<union> (\<Union>d\<in>set baseDirectories. set (prefixes (path_join root d))),
              files = Map.empty\<rparr>"
  have truthy: "truthy (Some st)" using st by auto
  have split: "plan root cfg = ?base @ (?pre @ ?post)"
    using truthy
    by (simp add: plan_def cfg_def redux_effects)
  have pre: "outcome ?pre ?fB = None
       \<and> files (fs_run ?pre ?fB) (path_join root ''src/store/index.ts'') = Some (Text store_index_ts)
       \<and> files (fs_run ?pre ?fB) (path_join root ''src/store/slices/exampleSlice.ts'')
           = Some (Text exampleSlice_ts)"
  proof -
    consider "st = ''Async Storage''" | "st = ''React Native MMKV''" | "st = ''None''"
      using st by auto
    then show ?thesis
    proof cases
      case 1
      then show ?thesis
        by (cases b; cases n)
           (simp_all add: storage_effects entry_effects_def directory_effects_def
             bottomNavDirectories_def bottomNavFiles_def mkdirp_ok write_file_def path_join_def
             dirname_def butlast_append baseDirectories_def navigationFiles_def)
    next
      case 2
      then show ?thesis
        by (cases b; cases n)
           (simp_all add: storage_effects entry_effects_def directory_effects_def
             bottomNavDirectories_def bottomNavFiles_def mkdirp_ok write_file_def path_join_def
             dirname_def butlast_append baseDirectories_def navigationFiles_def)
    next
      case 3
      then show ?thesis
        by (cases b; cases n)
           (simp_all add: storage_effects entry_effects_def directory_effects_def
             bottomNavDirectories_def bottomNavFiles_def mkdirp_ok write_file_def path_join_def
             dirname_def butlast_append baseDirectories_def navigationFiles_def)
    qed
  qed
  have post: "path_join root ''src/store/index.ts'' \<notin> set (written (calls_of ?post))"
    "path_join root ''src/store/slices/exampleSlice.ts'' \<notin> set (written (calls_of ?post))"
    by (auto simp: calls_of_append written_append entry_effects_def utilFiles_def path_join_def)
  have run: "fs_run (plan root cfg) (empty_project root) = fs_run ?post (fs_run ?pre ?fB)"
    unfolding split base_done using pre by (simp only: fs_run_append) simp
  show "files (fs_run (plan root cfg) (empty_project root)) (path_join root ''src/store/index.ts'')
           = Some (Text store_index_ts)"
    unfolding run using fs_run_frame [OF post(1)] pre by simp
  show "files (fs_run (plan root cfg) (empty_project root)) (path_join root ''src/store/slices/exampleSlice.ts'')
           = Some (Text exampleSlice_ts)"
    unfolding run using fs_run_frame [OF post(2)] pre by simp
  have absent: "path_join root ''src/store/zustand/exampleStore.ts'' \<notin> set (written (calls_of (?base @ ?pre @ ?post)))"
    "path_join root ''src/context/providers/ExampleProvider.tsx'' \<notin> set (written (calls_of (?base @ ?pre @ ?post)))"
    using written_table_storage [of root "''Created storage file: ''" "Some st"]
    by (auto simp: calls_of_append written_append calls_of_directories written_mkdirs
         navigationFiles_def utilFiles_def bottomNavFiles_def bottomNavDirectories_def
         directory_effects_def entry_effects_def path_join_def)
  show "files (fs_run (plan root cfg) (empty_project root)) (path_join root ''src/store/zustand/exampleStore.ts'')
           = None"
    unfolding split using fs_run_frame [OF absent(1), of "empty_project root"]
    by (simp add: empty_project_def)
  show "files (fs_run (plan root cfg) (empty_project root)) (path_join root ''src/context/providers/ExampleProvider.tsx'')
           = None"
    unfolding split using fs_run_frame [OF absent(2), of "empty_project root"]
    by (simp add: empty_project_def)
qed

lemma zustand_effects:
  "table_effects root label stateManagementFiles (Some ''Zustand'') =
   entry_effects root Cyan label
     \<lparr>path = ''src/store/zustand/exampleStore.ts'', content = exampleStore_ts\<rparr>"
  by (simp add: table_effects_def property_def stateManagementFiles_def)

lemma context_effects:
  "table_effects root label stateManagementFiles (Some ''Context API'') =
   entry_effects root Cyan label
     \<lparr>path = ''src/context/providers/ExampleProvider.tsx'', content = ExampleProvider_tsx\<rparr>"
  by (simp add: table_effects_def property_def stateManagementFiles_def)

lemma zustand_run:
  fixes root b st n
  assumes st: "st \<in> {''Async Storage'', ''React Native MMKV'', ''None''}"
  defines "cfg \<equiv> \<lparr>bottomNavigation = b, storageType = Some st,
                    navigationSetup = n, stateManagement = Some ''Zustand''\<rparr>"
  shows "files (fs_run (plan root cfg) (empty_project root)) (path_join root ''src/store/zustand/exampleStore.ts'')
           = Some (Text exampleStore_ts)"
proof -
  let ?base = "concat (map (directory_effects root Green ''Created directory: '') baseDirectories)"
  let ?pre = "[Call (Mkdirp (path_join root ''src/navigation'')),
        Print (Log Green ''Ensured navigation directory exists: src/navigation'')]
     @ (if b
        then concat (map (directory_effects root Blue ''Created Bottom Nav directory: '')
                      bottomNavDirectories)
             @ concat (map (\<lambda>file.
                 [Call (WriteFile (path_join root file) (Text generateBottomTabContent)),
                  Print (Log Yellow (''Created Bottom Nav file: '' @ file))]) bottomNavFiles)
        else [])
     @ table_effects root ''Created storage file: '' storageFiles (Some st)
     @ (if n
        then concat (map (entry_effects root Magenta ''Created navigation file: '')
                      navigationFiles)
        else [])
     @ entry_effects root Cyan ''Created state management file: ''
         \<lparr>path = ''src/store/zustand/exampleStore.ts'', content = exampleStore_ts\<rparr>"
  let ?post = "concat (map (entry_effects root Yellow ''Created utility file: '') utilFiles)
     @ [Call (WriteFile (path_join root ''tsconfig.json'') (Json defaultConfig)),
        Print (Log Blue ''Created/Updated tsconfig.json''),
        Print (Log BoldGreen (check_mark @ '' Project structure created successfully!''))]"
  let ?fB = "\<lparr>dirs = set (prefixes root) \<union> (\<Union>d\<in>set baseDirectories. set (prefixes (path_join root d))),
              files = Map.empty\<rparr>"
  have truthy: "truthy (Some st)" using st by auto
  have split: "plan root cfg = ?base @ (?pre @ ?post)"
    using truthy
    by (simp add: plan_def cfg_def zustand_effects)
  have pre: "outcome ?pre ?fB = None
       \<and> files (fs_run ?pre ?fB) (path_join root ''src/store/zustand/exampleStore.ts'')
           = Some (Text exampleStore_ts)"
  proof -
    consider "st = ''Async Storage''" | "st = ''React Native MMKV''" | "st = ''None''"
      using st by auto
    then show ?thesis
    proof cases
      case 1
      then show ?thesis
        by (cases b; cases n)
           (simp_all add: storage_effects entry_effects_def directory_effects_def
             bottomNavDirectories_def bottomNavFiles_def mkdirp_ok write_file_def path_join_def
             dirname_def butlast_append baseDirectories_def navigationFiles_def)
    next
      case 2
      then show ?thesis
        by (cases b; cases n)
           (simp_all add: storage_effects entry_effects_def directory_effects_def
             bottomNavDirectories_def bottomNavFiles_def mkdirp_ok write_file_def path_join_def
             dirname_def butlast_append baseDirectories_def navigationFiles_def)
    next
      case 3
      then show ?thesis
        by (cases b; cases n)
           (simp_all add: storage_effects entry_effects_def directory_effects_def
             bottomNavDirectories_def bottomNavFiles_def mkdirp_ok write_file_def path_join_def
             dirname_def butlast_append baseDirectories_def navigationFiles_def)
    qed
  qed
  have post: "path_join root ''src/store/zustand/exampleStore.ts'' \<notin> set (written (calls_of ?post))"
    by (auto simp: calls_of_append written_append entry_effects_def utilFiles_def path_join_def)
  have run: "fs_run (plan root cfg) (empty_project root) = fs_run ?post (fs_run ?pre ?fB)"
    unfolding split base_done using pre by (simp only: fs_run_append) simp
  show ?thesis
    unfolding run using fs_run_frame [OF post] pre by simp
qed

lemma context_run:
  fixes root b st n
  assumes st: "st \<in> {''Async Storage'', ''React Native MMKV'', ''None''}"
  defines "cfg \<equiv> \<lparr>bottomNavigation = b, storageType = Some st,
                    navigationSetup = n, stateManagement = Some ''Context API''\<rparr>"
  shows "files (fs_run (plan root cfg) (empty_project root))
           (path_join root ''src/context/providers/ExampleProvider.tsx'')
           = Some (Text ExampleProvider_tsx)"
proof -
  let ?base = "concat (map (directory_effects root Green ''Created directory: '') baseDirectories)"
  let ?pre = "[Call (Mkdirp (path_join root ''src/navigation'')),
        Print (Log Green ''Ensured navigation directory exists: src/navigation'')]
     @ (if b
        then concat (map (directory_effects root Blue ''Created Bottom Nav directory: '')
                      bottomNavDirectories)
             @ concat (map (\<lambda>file.
                 [Call (WriteFile (path_join root file) (Text generateBottomTabContent)),
                  Print (Log Yellow (''Created Bottom Nav file: '' @ file))]) bottomNavFiles)
        else [])
     @ table_effects root ''Created storage file: '' storageFiles (Some st)
     @ (if n
        then concat (map (entry_effects root Magenta ''Created navigation file: '')
                      navigationFiles)
        else [])
     @ entry_effects root Cyan ''Created state management file: ''
         \<lparr>path = ''src/context/providers/ExampleProvider.tsx'', content = ExampleProvider_tsx\<rparr>"
  let ?post = "concat (map (entry_effects root Yellow ''Created utility file: '') utilFiles)
     @ [Call (WriteFile (path_join root ''tsconfig.json'') (Json defaultConfig)),
        Print (Log Blue ''Created/Updated tsconfig.json''),
        Print (Log BoldGreen (check_mark @ '' Project structure created successfully!''))]"
  let ?fB = "\<lparr>dirs = set (prefixes root) \<union> (\<Union>d\<in>set baseDirectories. set (prefixes (path_join root d))),
              files = Map.empty\<rparr>"
  have truthy: "truthy (Some st)" using st by auto
  have split: "plan root cfg = ?base @ (?pre @ ?post)"
    using truthy
    by (simp add: plan_def cfg_def context_effects)
  have pre: "outcome ?pre ?fB = None
       \<and> files (fs_run ?pre ?fB) (path_join root ''src/context/providers/ExampleProvider.tsx'')
           = Some (Text ExampleProvider_tsx)"
  proof -
    consider "st = ''Async Storage''" | "st = ''React Native MMKV''" | "st = ''None''"
      using st by auto
    then show ?thesis
    proof cases
      case 1
      then show ?thesis
        by (cases b; cases n)
           (simp_all add: storage_effects entry_effects_def directory_effects_def
             bottomNavDirectories_def bottomNavFiles_def mkdirp_ok write_file_def path_join_def
             dirname_def butlast_append baseDirectories_def navigationFiles_def)
    next
      case 2
      then show ?thesis
        by (cases b; cases n)
           (simp_all add: storage_effects entry_effects_def directory_effects_def
             bottomNavDirectories_def bottomNavFiles_def mkdirp_ok write_file_def path_join_def
             dirname_def butlast_append baseDirectories_def navigationFiles_def)
    next
      case 3
      then show ?thesis
        by (cases b; cases n)
           (simp_all add: storage_effects entry_effects_def directory_effects_def
             bottomNavDirectories_def bottomNavFiles_def mkdirp_ok write_file_def path_join_def
             dirname_def butlast_append baseDirectories_def navigationFiles_def)
    qed
  qed
  have post: "path_join root ''src/context/providers/ExampleProvider.tsx'' \<notin> set (written (calls_of ?post))"
    by (auto simp: calls_of_append written_append entry_effects_def utilFiles_def path_join_def)
  have run: "fs_run (plan root cfg) (empty_project root) = fs_run ?post (fs_run ?pre ?fB)"
    unfolding split base_done using pre by (simp only: fs_run_append) simp
  show ?thesis
    unfolding run using fs_run_frame [OF post] pre by simp
qed

lemma redux_generator_calls:
  "calls (snd (setupStateManagement rootPath
        ((constructor (empty_project rootPath))
           \<lparr>config := \<lparr>bottomNavigation = b, storageType = Some st, navigationSetup = n,
                        stateManagement = Some ''Redux Toolkit''\<rparr>\<rparr>)))
     = [Mkdirp (dirname (path_join rootPath ''src/store/index.ts'')),
        WriteFile (path_join rootPath ''src/store/index.ts'') (Text store_index_ts),
        Mkdirp (dirname (path_join rootPath ''src/store/slices/exampleSlice.ts'')),
        WriteFile (path_join rootPath ''src/store/slices/exampleSlice.ts'') (Text exampleSlice_ts)]"
  unfolding setupStateManagement_run run_calls
  by (simp add: constructor_def redux_effects entry_effects_def empty_project_def mkdirp_ok
      write_file_def path_join_def dirname_def butlast_append)

lemma blocked_outcome:
  "outcome (plan [''project''] \<lparr>bottomNavigation = False, storageType = Some ''None'',
              navigationSetup = False, stateManagement = Some ''None''\<rparr>)
     \<lparr>dirs = set (prefixes [''project'']),
      files = [[''project'', ''src'', ''store''] \<mapsto> Text ''notes'']\<rparr>
   = Some (FilesystemError EEXIST [''project'', ''src'', ''store''])"
  by (simp add: plan_def baseDirectories_def directory_effects_def path_join_def mkdirp_def)

lemma blocked_fs:
  "[''project'', ''src'', ''components'', ''forms'']
     \<in> dirs (fs_run (plan [''project''] \<lparr>bottomNavigation = False, storageType = Some ''None'',
              navigationSetup = False, stateManagement = Some ''None''\<rparr>)
     \<lparr>dirs = set (prefixes [''project'']),
      files = [[''project'', ''src'', ''store''] \<mapsto> Text ''notes'']\<rparr>)"
  "[''project'', ''src'', ''constants'']
     \<notin> dirs (fs_run (plan [''project''] \<lparr>bottomNavigation = False, storageType = Some ''None'',
              navigationSetup = False, stateManagement = Some ''None''\<rparr>)
     \<lparr>dirs = set (prefixes [''project'']),
      files = [[''project'', ''src'', ''store''] \<mapsto> Text ''notes'']\<rparr>)"
  by (simp_all add: plan_def baseDirectories_def directory_effects_def path_join_def mkdirp_def)

subsection \<open>Adding and subtracting one\<close>

text \<open>
  An integer of magnitude at most \<open>2\<^sup>5\<^sup>3\<close> is a double, so that a sum or a difference
  with this value is exact. \<open>2\<^sup>5\<^sup>3 + 1\<close> is not a double: it lies halfway between
  \<open>2\<^sup>5\<^sup>3\<close> and \<open>2\<^sup>5\<^sup>3 + 2\<close>, and the sum is rounded to \<open>2\<^sup>5\<^sup>3\<close>.
\<close>

lemma bit_length_le: "n < 2 ^ w \<Longrightarrow> bit_length n \<le> w"
proof (induction w arbitrary: n)
  case 0
  then show ?case by (simp add: bit_length.simps)
next
  case (Suc w)
  show ?case
  proof (cases "n \<le> 0")
    case True
    then show ?thesis by (simp add: bit_length.simps)
  next
    case False
    have "n div 2 < 2 ^ w" using Suc.prems by simp
    then have "bit_length (n div 2) \<le> w" by (rule Suc.IH)
    then show ?thesis using False by (subst bit_length.simps) simp
  qed
qed

lemma bit_length_ge: "2 ^ w \<le> n \<Longrightarrow> w < bit_length n"
proof (induction w arbitrary: n)
  case 0
  then show ?case by (subst bit_length.simps) simp
next
  case (Suc w)
  then have "2 ^ w \<le> n div 2" by simp
  then have "w < bit_length (n div 2)" by (rule Suc.IH)
  moreover have "(0::int) < 2 ^ Suc w" by simp
  then have "\<not> n \<le> 0" using Suc.prems by linarith
  ultimately show ?case by (subst bit_length.simps) simp
qed

lemma bit_length_eq: "2 ^ w \<le> n \<Longrightarrow> n < 2 ^ Suc w \<Longrightarrow> bit_length n = Suc w"
  using bit_length_le [of n "Suc w"] bit_length_ge [of w n] by simp

lemma round_exact: "2 ^ j dvd m \<Longrightarrow> round_half_even m j = m"
  by (auto simp: round_half_even_def Let_def dvd_eq_mod_eq_0)

lemma to_number_exact:
  assumes "2 ^ (bit_length \<bar>k\<bar> - 53) dvd \<bar>k\<bar>" and "\<bar>k\<bar> < 2 ^ 2098"
  shows "to_number k = Finite k"
proof -
  have r: "round_half_even \<bar>k\<bar> (bit_length \<bar>k\<bar> - 53) = \<bar>k\<bar>"
    using assms(1) by (rule round_exact)
  have o: "\<not> (2::int) ^ 2098 \<le> \<bar>k\<bar>" using assms(2) by (simp del: power_numeral)
  have "(if k < 0 then - \<bar>k\<bar> else \<bar>k\<bar>) = k" by simp
  then show ?thesis
    unfolding to_number_def Let_def r using o by (simp del: power_numeral)
qed

lemma number_of_int_exact:
  assumes "\<bar>v\<bar> \<le> 2 ^ 53"
  shows "to_number (v * 2 ^ 1074) = Finite (v * 2 ^ 1074)"
proof (rule to_number_exact)
  let ?m = "\<bar>v * 2 ^ 1074\<bar>"
  have p: "\<bar>(2::int) ^ 1074\<bar> = 2 ^ 1074" by (rule abs_of_nonneg) simp
  have m: "?m = \<bar>v\<bar> * 2 ^ 1074" by (simp only: abs_mult p)
  show "2 ^ (bit_length ?m - 53) dvd ?m"
  proof (cases "\<bar>v\<bar> = 2 ^ 53")
    case True
    then have "?m = 2 ^ 53 * 2 ^ 1074" unfolding m by (simp only:)
    also have "\<dots> = (2::int) ^ 1127" by (simp del: power_numeral flip: power_add)
    finally have mm: "?m = 2 ^ 1127" .
    have bl: "bit_length ?m = Suc 1127"
      unfolding mm by (rule bit_length_eq) (simp_all del: power_numeral)
    have "(2::int) ^ (Suc 1127 - 53) dvd 2 ^ 1127"
      by (rule le_imp_power_dvd) simp
    then show ?thesis unfolding bl unfolding mm .
  next
    case False
    with assms have "\<bar>v\<bar> < 2 ^ 53" by simp
    then have "\<bar>v\<bar> * 2 ^ 1074 < 2 ^ 53 * 2 ^ 1074"
      by (rule mult_strict_right_mono) simp
    also have "\<dots> = (2::int) ^ 1127" by (simp del: power_numeral flip: power_add)
    finally have "?m < 2 ^ 1127" unfolding m .
    then have "bit_length ?m \<le> 1127" by (rule bit_length_le)
    then have "bit_length ?m - 53 \<le> 1074" by simp
    then have "(2::int) ^ (bit_length ?m - 53) dvd 2 ^ 1074" by (rule le_imp_power_dvd)
    then show ?thesis unfolding m by (rule dvd_mult)
  qed
  have "\<bar>v\<bar> * 2 ^ 1074 \<le> 2 ^ 53 * 2 ^ 1074"
    using assms by (rule mult_right_mono) simp
  then have "?m \<le> 2 ^ 53 * 2 ^ 1074" unfolding m .
  also have "\<dots> = (2::int) ^ 1127" by (simp del: power_numeral flip: power_add)
  also have "\<dots> < 2 ^ 2098" by (simp del: power_numeral)
  finally show "?m < 2 ^ 2098" .
qed

lemma add_one:
  assumes "- (2 ^ 53) \<le> v" and "v < 2 ^ 53"
  shows "number_add (number_of_int v) (number_of_int 1) = number_of_int (v + 1)"
proof -
  have "\<bar>v + 1\<bar> \<le> 2 ^ 53" using assms by simp
  then have "to_number ((v + 1) * 2 ^ 1074) = Finite ((v + 1) * 2 ^ 1074)" by (rule number_of_int_exact)
  then show ?thesis by (simp del: power_numeral add: number_of_int_def algebra_simps)
qed

lemma sub_one:
  assumes "- (2 ^ 53) < v" and "v \<le> 2 ^ 53"
  shows "number_sub (number_of_int v) (number_of_int 1) = number_of_int (v - 1)"
proof -
  have "\<bar>v - 1\<bar> \<le> 2 ^ 53" using assms by simp
  then have "to_number ((v - 1) * 2 ^ 1074) = Finite ((v - 1) * 2 ^ 1074)" by (rule number_of_int_exact)
  then show ?thesis by (simp del: power_numeral add: number_of_int_def number_sub_def algebra_simps)
qed

lemma add_one_at_limit: "number_add (number_of_int (2 ^ 53)) (number_of_int 1) = number_of_int (2 ^ 53)"
  by code_simp

lemma sub_one_at_limit:
  "number_sub (number_of_int (- (2 ^ 53))) (number_of_int 1) = number_of_int (- (2 ^ 53))"
  by code_simp

lemma increments_reach:
  "int n \<le> 2 ^ 53 \<Longrightarrow>
   (exampleSlice_increment ^^ n) exampleSlice_initialState = \<lparr>value = number_of_int (int n)\<rparr>"
proof (induction n)
  case 0
  then show ?case by (simp add: exampleSlice_initialState_def)
next
  case (Suc n)
  then have IH: "(exampleSlice_increment ^^ n) exampleSlice_initialState = \<lparr>value = number_of_int (int n)\<rparr>"
    by simp
  have one: "number_add (number_of_int (int n)) (number_of_int 1) = number_of_int (int n + 1)"
    using Suc.prems by (intro add_one) simp_all
  have "(exampleSlice_increment ^^ Suc n) exampleSlice_initialState
      = exampleSlice_increment ((exampleSlice_increment ^^ n) exampleSlice_initialState)"
    by simp
  also have "\<dots> = exampleSlice_increment \<lparr>value = number_of_int (int n)\<rparr>"
    by (simp only: IH)
  also have "\<dots> = \<lparr>value = number_add (number_of_int (int n)) (number_of_int 1)\<rparr>"
    by (simp add: exampleSlice_increment_def)
  also have "\<dots> = \<lparr>value = number_of_int (int (Suc n))\<rparr>"
    unfolding one by (simp add: add.commute)
  finally show ?case .
qed

subsection \<open>The text of the generated files\<close>

text \<open>
  The lines of a generated file are the lines of its template.
\<close>

lemma split_lines_not_Nil: "split_lines s \<noteq> []"
  by (induction s) (auto split: list.splits)

lemma split_lines_line: "CHR 0x0A \<notin> set l \<Longrightarrow> split_lines (l @ CHR 0x0A # rest) = l # split_lines rest"
  by (induction l) (auto split: list.splits simp: split_lines_not_Nil)

lemma split_lines_last: "CHR 0x0A \<notin> set l \<Longrightarrow> split_lines l = [l]"
  by (induction l) (auto split: list.splits)

lemma split_lines_template:
  "ls \<noteq> [] \<Longrightarrow> list_all (\<lambda>l. CHR 0x0A \<notin> set l) ls \<Longrightarrow> split_lines (template ls) = ls"
proof (induction ls rule: template.induct)
  case 1
  then show ?case by simp
next
  case (2 l)
  then show ?case by (simp add: split_lines_last)
next
  case (3 l v va)
  then show ?case by (simp add: split_lines_line)
qed



lemma lines_NavigationRef: "split_lines generateNavigationRefContent = generateNavigationRefContent_lines"
  unfolding generateNavigationRefContent_def
  by (rule split_lines_template) (simp_all add: generateNavigationRefContent_lines_def)

lemma lines_exampleSlice: "split_lines exampleSlice_ts = exampleSlice_ts_lines"
  unfolding exampleSlice_ts_def
  by (rule split_lines_template) (simp_all add: exampleSlice_ts_lines_def)

lemma lines_exampleStore: "split_lines exampleStore_ts = exampleStore_ts_lines"
  unfolding exampleStore_ts_def
  by (rule split_lines_template) (simp_all add: exampleStore_ts_lines_def)

lemma lines_ExampleProvider: "split_lines ExampleProvider_tsx = ExampleProvider_tsx_lines"
  unfolding ExampleProvider_tsx_def
  by (rule split_lines_template) (simp_all add: ExampleProvider_tsx_lines_def)



lemma counter_statements:
  "''value: 0,'' \<in> set (statements exampleSlice_ts)"
  "''increment: (state) => { state.value += 1; },'' \<in> set (statements exampleSlice_ts)"
  "''decrement: (state) => { state.value -= 1; }'' \<in> set (statements exampleSlice_ts)"
  "''value: 0,'' \<in> set (statements exampleStore_ts)"
  "''increment: () => set((state: any) => ({ value: state.value + 1 })),'' \<in> set (statements exampleStore_ts)"
  "''decrement: () => set((state: any) => ({ value: state.value - 1 })),'' \<in> set (statements exampleStore_ts)"
  "''const [value, setValue] = useState(0);'' \<in> set (statements ExampleProvider_tsx)"
  "''const increment = () => setValue((prev) => prev + 1);'' \<in> set (statements ExampleProvider_tsx)"
  "''const decrement = () => setValue((prev) => prev - 1);'' \<in> set (statements ExampleProvider_tsx)"
  unfolding statements_def lines_exampleSlice lines_exampleStore lines_ExampleProvider
  by (simp_all add: trim_def exampleSlice_ts_lines_def exampleStore_ts_lines_def ExampleProvider_tsx_lines_def)

lemma reset_statements:
  "''if (navigationRef.isReady()) {'' \<in> set (statements generateNavigationRefContent)"
  "''navigationRef.reset({'' \<in> set (statements generateNavigationRefContent)"
  "''index: routes.length - 1,'' \<in> set (statements generateNavigationRefContent)"
  "''routes,'' \<in> set (statements generateNavigationRefContent)"
  unfolding statements_def lines_NavigationRef
  by (simp_all add: trim_def generateNavigationRefContent_lines_def)

subsection \<open>The type-checker configuration document\<close>

lemma paths_value:
  "compilerOptions_paths = Some (JObject
          [(''@assets/*'', JArray [JString ''assets/*'']),
           (''@features/*'', JArray [JString ''features/*'']),
           (''@navigation/*'', JArray [JString ''navigation/*'']),
           (''@components/*'', JArray [JString ''components/*'']),
           (''@state/*'', JArray [JString ''state/*'']),
           (''@store/*'', JArray [JString ''store/*'']),
           (''@service/*'', JArray [JString ''service/*'']),
           (''@styles/*'', JArray [JString ''styles/*'']),
           (''@utils/*'', JArray [JString ''utils/*'']),
           (''@i18n/*'', JArray [JString ''i18n/*'']),
           (''@theme/*'', JArray [JString ''theme/*'']),
           (''@types/*'', JArray [JString ''types/*'']),
           (''@constants/*'', JArray [JString ''constants/*'']),
           (''@context/*'', JArray [JString ''context/*'']),
           (''@hooks/*'', JArray [JString ''hooks/*''])])"
  by (simp add: compilerOptions_paths_def defaultConfig_def)

lemma paths_keys:
  "keys (the compilerOptions_paths) =
     [''@assets/*'', ''@features/*'', ''@navigation/*'', ''@components/*'', ''@state/*'',
      ''@store/*'', ''@service/*'', ''@styles/*'', ''@utils/*'', ''@i18n/*'', ''@theme/*'',
      ''@types/*'', ''@constants/*'', ''@context/*'', ''@hooks/*'']"
  by (simp add: paths_value)

text \<open>
  Claim C1, as the specification states it, fails on the code: the \<^verbatim>\<open>paths\<close> mapping of
  the generated type-checker configuration document does not have 14 keys.
\<close>

theorem tsconfig_paths_not_14_keys:
  "\<not> (length (keys (the compilerOptions_paths)) = 14
      \<and> list_all (\<lambda>k. case get (the compilerOptions_paths) k of
                          Some v \<Rightarrow> single_element_list v | None \<Rightarrow> False)
           (keys (the compilerOptions_paths))
      \<and> compilerOptions_baseUrl = Some (JString ''./src''))"
  by (simp add: paths_keys)

text \<open>
  Claim C1, amended: the \<^verbatim>\<open>paths\<close> mapping of the generated type-checker
  configuration document has exactly 15 keys, no two of them equal, every key is mapped
  to a single-element list, and \<^verbatim>\<open>baseUrl\<close> is \<^verbatim>\<open>"./src"\<close>.
\<close>

theorem tsconfig_paths_15_keys:
  "compilerOptions_paths \<noteq> None
   \<and> length (keys (the compilerOptions_paths)) = 15
   \<and> distinct (keys (the compilerOptions_paths))
   \<and> list_all (\<lambda>k. case get (the compilerOptions_paths) k of
                       Some v \<Rightarrow> single_element_list v | None \<Rightarrow> False)
        (keys (the compilerOptions_paths))
   \<and> compilerOptions_baseUrl = Some (JString ''./src'')"
proof -
  have a: "compilerOptions_paths \<noteq> None"
    by (simp add: paths_value)
  have b: "length (keys (the compilerOptions_paths)) = 15"
    by (simp add: paths_keys)
  have c: "distinct (keys (the compilerOptions_paths))"
    by (simp add: paths_keys)
  have d: "list_all (\<lambda>k. case get (the compilerOptions_paths) k of
                       Some v \<Rightarrow> single_element_list v | None \<Rightarrow> False)
        (keys (the compilerOptions_paths))"
    unfolding paths_keys by (simp add: paths_value)
  have e: "compilerOptions_baseUrl = Some (JString ''./src'')"
    by (simp add: compilerOptions_baseUrl_def defaultConfig_def)
  from a b c d e show ?thesis by blast
qed

subsection \<open>A run in which everything is declined\<close>

text \<open>
  Claim C2, as the specification states it, fails on the code. With bottom navigation and
  navigation setup declined and \<^verbatim>\<open>None\<close> chosen for storage and for state
  management, a run in an empty project leaves the directory \<^verbatim>\<open>src/navigation\<close>,
  which is not among the fixed base directories of \<^verbatim>\<open>createBaseDirectories\<close>, nor
  an ancestor of one: \<^verbatim>\<open>ensureNavigationDirectory\<close> creates it in every run.
\<close>

theorem navigation_directory_exists_when_all_declined:
  "[''project'', ''src'', ''navigation'']
     \<in> dirs (fs (snd (scaffold [''project'']
           \<lparr>answer_bottomNav = Inr False, answer_storageType = Inr ''None'',
            answer_navigationSetup = Inr False, answer_stateManagement = Inr ''None''\<rparr>
           (constructor (empty_project [''project''])))))
   \<and> ''src/navigation'' \<notin> set baseDirectories
   \<and> [''project'', ''src'', ''navigation'']
     \<notin> set (prefixes [''project''])
         \<union> (\<Union>d\<in>set baseDirectories. set (prefixes (path_join [''project''] d)))"
proof -
  have "[''project'', ''src'', ''navigation'']
     \<in> dirs (fs (snd (scaffold [''project'']
           \<lparr>answer_bottomNav = Inr False, answer_storageType = Inr ''None'',
            answer_navigationSetup = Inr False, answer_stateManagement = Inr ''None''\<rparr>
           (constructor (empty_project [''project''])))))"
    by (simp add: scaffold_fs all_off(2) path_join_def)
  moreover have "''src/navigation'' \<notin> set baseDirectories"
    by (simp add: baseDirectories_def)
  moreover have "[''project'', ''src'', ''navigation'']
     \<notin> set (prefixes [''project''])
         \<union> (\<Union>d\<in>set baseDirectories. set (prefixes (path_join [''project''] d)))"
    by (simp add: baseDirectories_def path_join_def)
  ultimately show ?thesis by simp
qed

text \<open>
  Claim C2, amended: with bottom navigation and navigation setup declined and
  \<^verbatim>\<open>None\<close> chosen for storage and for state management, a run in an empty project
  leaves under the root path exactly the fixed base directories with their ancestors, the
  directory \<^verbatim>\<open>src/navigation\<close>, the two fixed utility files and the configuration
  document. No output of a conditional generator exists: not the bottom-tab icon
  directory, the bottom-tab navigator file, a storage file, a navigation file, a
  state-management file, nor a directory made for a state-management file.
\<close>

theorem all_declined_outputs:
  "(let final = fs (snd (scaffold rootPath
           \<lparr>answer_bottomNav = Inr False, answer_storageType = Inr ''None'',
            answer_navigationSetup = Inr False, answer_stateManagement = Inr ''None''\<rparr>
           (constructor (empty_project rootPath))))
    in final =
         \<lparr>dirs = set (prefixes rootPath)
              \<union> (\<Union>d\<in>set (baseDirectories @ [''src/navigation'']).
                    set (prefixes (path_join rootPath d))),
          files =
            [path_join rootPath ''src/utils/MediaHandler.ts'' \<mapsto> Text generateMediaHandlerContent,
             path_join rootPath ''src/utils/responsive-screen.ts''
               \<mapsto> Text generateResponsiveScreenContent,
             path_join rootPath ''tsconfig.json'' \<mapsto> Json defaultConfig]\<rparr>
       \<and> list_all (\<lambda>d. path_join rootPath d \<notin> dirs final)
            [''src/assets/icons/BottomTabIcons'', ''src/store/slices'', ''src/store/zustand'',
             ''src/context/providers'']
       \<and> list_all (\<lambda>p. files final (path_join rootPath p) = None)
            [''src/navigation/BottomTabNavigator.tsx'', ''src/utils/asyncStorage.ts'',
             ''src/utils/mmkvStorage.ts'', ''src/navigation/RootNavigator.tsx'',
             ''src/navigation/NavigationRef.ts'', ''src/store/index.ts'',
             ''src/store/slices/exampleSlice.ts'', ''src/store/zustand/exampleStore.ts'',
             ''src/context/providers/ExampleProvider.tsx''])"
proof -
  let ?final = "\<lparr>dirs = set (prefixes rootPath)
         \<union> (\<Union>d\<in>set baseDirectories. set (prefixes (path_join rootPath d)))
         \<union> set (prefixes (path_join rootPath ''src/navigation'')),
      files = [path_join rootPath ''src/utils/MediaHandler.ts'' \<mapsto> Text generateMediaHandlerContent,
               path_join rootPath ''src/utils/responsive-screen.ts'' \<mapsto> Text generateResponsiveScreenContent,
               path_join rootPath ''tsconfig.json'' \<mapsto> Json defaultConfig]\<rparr>"
  have run: "fs (snd (scaffold rootPath
           \<lparr>answer_bottomNav = Inr False, answer_storageType = Inr ''None'',
            answer_navigationSetup = Inr False, answer_stateManagement = Inr ''None''\<rparr>
           (constructor (empty_project rootPath)))) = ?final"
    by (simp add: scaffold_fs all_off(2))
  have a: "?final =
     \<lparr>dirs = set (prefixes rootPath)
         \<union> (\<Union>d\<in>set (baseDirectories @ [''src/navigation'']). set (prefixes (path_join rootPath d))),
      files = [path_join rootPath ''src/utils/MediaHandler.ts'' \<mapsto> Text generateMediaHandlerContent,
               path_join rootPath ''src/utils/responsive-screen.ts'' \<mapsto> Text generateResponsiveScreenContent,
               path_join rootPath ''tsconfig.json'' \<mapsto> Json defaultConfig]\<rparr>"
    by (simp add: Un_ac)
  have b: "list_all (\<lambda>d. path_join rootPath d \<notin> dirs ?final)
       [''src/assets/icons/BottomTabIcons'', ''src/store/slices'', ''src/store/zustand'',
        ''src/context/providers'']"
    by (simp add: baseDirectories_def path_join_def)
  have c: "list_all (\<lambda>p. files ?final (path_join rootPath p) = None)
       [''src/navigation/BottomTabNavigator.tsx'', ''src/utils/asyncStorage.ts'',
        ''src/utils/mmkvStorage.ts'', ''src/navigation/RootNavigator.tsx'',
        ''src/navigation/NavigationRef.ts'', ''src/store/index.ts'',
        ''src/store/slices/exampleSlice.ts'', ''src/store/zustand/exampleStore.ts'',
        ''src/context/providers/ExampleProvider.tsx'']"
    by (simp add: path_join_def)
  from a b c show ?thesis unfolding Let_def run by blast
qed

subsection \<open>The storage generator\<close>


subsection \<open>The state-management generator\<close>

text \<open>
  Claim C4, as the specification states it, fails on the code. The counter of the
  generated slice is a TypeScript \<^verbatim>\<open>number\<close>, a double. At the value \<open>2\<^sup>5\<^sup>3\<close>,
  \<^verbatim>\<open>increment\<close> does not change it by 1: it leaves it as it is, because
  \<open>2\<^sup>5\<^sup>3 + 1\<close> is not a double and the sum is rounded back to \<open>2\<^sup>5\<^sup>3\<close>. The counter
  reaches this value from its initial state by \<open>2\<^sup>5\<^sup>3\<close> increments.
\<close>

theorem increment_at_2_53_leaves_counter:
  "value (exampleSlice_increment \<lparr>value = number_of_int (2 ^ 53)\<rparr>) = number_of_int (2 ^ 53)
   \<and> number_of_int (2 ^ 53) \<noteq> number_of_int (2 ^ 53 + 1)
   \<and> (exampleSlice_increment ^^ (2 ^ 53)) exampleSlice_initialState
       = \<lparr>value = number_of_int (2 ^ 53)\<rparr>"
proof -
  have a: "value (exampleSlice_increment \<lparr>value = number_of_int (2 ^ 53)\<rparr>) = number_of_int (2 ^ 53)"
    unfolding exampleSlice_increment_def by (simp only: counter.simps add_one_at_limit)
  have b: "number_of_int (2 ^ 53) \<noteq> number_of_int (2 ^ 53 + 1)"
    by (simp add: number_of_int_def)
  have "int (2 ^ 53) \<le> 2 ^ 53" by simp
  then have "(exampleSlice_increment ^^ (2 ^ 53)) exampleSlice_initialState
       = \<lparr>value = number_of_int (int (2 ^ 53))\<rparr>"
    by (rule increments_reach)
  moreover have "int (2 ^ 53) = 2 ^ 53" by simp
  ultimately have c: "(exampleSlice_increment ^^ (2 ^ 53)) exampleSlice_initialState
       = \<lparr>value = number_of_int (2 ^ 53)\<rparr>"
    by (simp only:)
  from a b c show ?thesis by (intro conjI)
qed

text \<open>
  Claim C4, amended. When the state-management choice is Redux Toolkit, whatever the
  answers to the two yes/no questions and whichever of the three storage choices is
  taken, a run in an empty project writes the two files of the Redux variant, the store
  entry point \<^verbatim>\<open>src/store/index.ts\<close> and the example slice
  \<^verbatim>\<open>src/store/slices/exampleSlice.ts\<close>, and no file of the other two variants;
  these two are all that the generator writes.
  The counter that the slice declares starts at 0; \<^verbatim>\<open>increment\<close> adds exactly 1 and
  \<^verbatim>\<open>decrement\<close> subtracts exactly 1 at every integer value for which the result is
  at most \<open>2\<^sup>5\<^sup>3\<close> in magnitude, and nothing else bounds the counter. The file
  that a run writes when the choice is Zustand, and the file that it writes when the
  choice is Context API, declare a counter with the same contract.
\<close>

theorem redux_toolkit_writes_two_files_and_counts_by_one:
  assumes "st \<in> {''Async Storage'', ''React Native MMKV'', ''None''}"
  shows "(let final = fs (snd (scaffold rootPath
        \<lparr>answer_bottomNav = Inr b, answer_storageType = Inr st,
         answer_navigationSetup = Inr n, answer_stateManagement = Inr ''Redux Toolkit''\<rparr>
        (constructor (empty_project rootPath))))
    in files final (path_join rootPath ''src/store/index.ts'') = Some (Text store_index_ts)
       \<and> files final (path_join rootPath ''src/store/slices/exampleSlice.ts'')
           = Some (Text exampleSlice_ts)
       \<and> files final (path_join rootPath ''src/store/zustand/exampleStore.ts'') = None
       \<and> files final (path_join rootPath ''src/context/providers/ExampleProvider.tsx'') = None)
   \<and> written (calls (snd (setupStateManagement rootPath
        ((constructor (empty_project rootPath))
           \<lparr>config := \<lparr>bottomNavigation = b, storageType = Some st, navigationSetup = n,
                        stateManagement = Some ''Redux Toolkit''\<rparr>\<rparr>))))
       = [path_join rootPath ''src/store/index.ts'',
          path_join rootPath ''src/store/slices/exampleSlice.ts'']
   \<and> ''value: 0,'' \<in> set (statements exampleSlice_ts)
   \<and> ''increment: (state) => { state.value += 1; },'' \<in> set (statements exampleSlice_ts)
   \<and> ''decrement: (state) => { state.value -= 1; }'' \<in> set (statements exampleSlice_ts)
   \<and> value exampleSlice_initialState = number_of_int 0
   \<and> (\<forall>v. - (2 ^ 53) \<le> v \<and> v < 2 ^ 53 \<longrightarrow>
          value (exampleSlice_increment \<lparr>value = number_of_int v\<rparr>) = number_of_int (v + 1))
   \<and> (\<forall>v. - (2 ^ 53) < v \<and> v \<le> 2 ^ 53 \<longrightarrow>
          value (exampleSlice_decrement \<lparr>value = number_of_int v\<rparr>) = number_of_int (v - 1))
   \<and> files (fs (snd (scaffold rootPath
        \<lparr>answer_bottomNav = Inr b, answer_storageType = Inr st,
         answer_navigationSetup = Inr n, answer_stateManagement = Inr ''Zustand''\<rparr>
        (constructor (empty_project rootPath)))))
        (path_join rootPath ''src/store/zustand/exampleStore.ts'') = Some (Text exampleStore_ts)
   \<and> ''value: 0,'' \<in> set (statements exampleStore_ts)
   \<and> ''increment: () => set((state: any) => ({ value: state.value + 1 })),''
         \<in> set (statements exampleStore_ts)
   \<and> ''decrement: () => set((state: any) => ({ value: state.value - 1 })),''
         \<in> set (statements exampleStore_ts)
   \<and> value useExampleStore_initial = number_of_int 0
   \<and> (\<forall>v. - (2 ^ 53) \<le> v \<and> v < 2 ^ 53 \<longrightarrow>
          value (useExampleStore_increment \<lparr>value = number_of_int v\<rparr>) = number_of_int (v + 1))
   \<and> (\<forall>v. - (2 ^ 53) < v \<and> v \<le> 2 ^ 53 \<longrightarrow>
          value (useExampleStore_decrement \<lparr>value = number_of_int v\<rparr>) = number_of_int (v - 1))
   \<and> files (fs (snd (scaffold rootPath
        \<lparr>answer_bottomNav = Inr b, answer_storageType = Inr st,
         answer_navigationSetup = Inr n, answer_stateManagement = Inr ''Context API''\<rparr>
        (constructor (empty_project rootPath)))))
        (path_join rootPath ''src/context/providers/ExampleProvider.tsx'')
        = Some (Text ExampleProvider_tsx)
   \<and> ''const [value, setValue] = useState(0);'' \<in> set (statements ExampleProvider_tsx)
   \<and> ''const increment = () => setValue((prev) => prev + 1);''
         \<in> set (statements ExampleProvider_tsx)
   \<and> ''const decrement = () => setValue((prev) => prev - 1);''
         \<in> set (statements ExampleProvider_tsx)
   \<and> ExampleProvider_initial = number_of_int 0
   \<and> (\<forall>v. - (2 ^ 53) \<le> v \<and> v < 2 ^ 53 \<longrightarrow>
          ExampleProvider_increment (number_of_int v) = number_of_int (v + 1))
   \<and> (\<forall>v. - (2 ^ 53) < v \<and> v \<le> 2 ^ 53 \<longrightarrow>
          ExampleProvider_decrement (number_of_int v) = number_of_int (v - 1))"
proof -
  have redux: "(let final = fs (snd (scaffold rootPath
        \<lparr>answer_bottomNav = Inr b, answer_storageType = Inr st,
         answer_navigationSetup = Inr n, answer_stateManagement = Inr ''Redux Toolkit''\<rparr>
        (constructor (empty_project rootPath))))
    in files final (path_join rootPath ''src/store/index.ts'') = Some (Text store_index_ts)
       \<and> files final (path_join rootPath ''src/store/slices/exampleSlice.ts'')
           = Some (Text exampleSlice_ts)
       \<and> files final (path_join rootPath ''src/store/zustand/exampleStore.ts'') = None
       \<and> files final (path_join rootPath ''src/context/providers/ExampleProvider.tsx'') = None)"
    unfolding Let_def scaffold_fs using redux_run [OF assms, of rootPath b n] by (intro conjI)
  have two: "written (calls (snd (setupStateManagement rootPath
        ((constructor (empty_project rootPath))
           \<lparr>config := \<lparr>bottomNavigation = b, storageType = Some st, navigationSetup = n,
                        stateManagement = Some ''Redux Toolkit''\<rparr>\<rparr>))))
       = [path_join rootPath ''src/store/index.ts'',
          path_join rootPath ''src/store/slices/exampleSlice.ts'']"
    unfolding redux_generator_calls by simp
  have zustand: "files (fs (snd (scaffold rootPath
        \<lparr>answer_bottomNav = Inr b, answer_storageType = Inr st,
         answer_navigationSetup = Inr n, answer_stateManagement = Inr ''Zustand''\<rparr>
        (constructor (empty_project rootPath)))))
        (path_join rootPath ''src/store/zustand/exampleStore.ts'') = Some (Text exampleStore_ts)"
    unfolding scaffold_fs using assms by (rule zustand_run)
  have ctx: "files (fs (snd (scaffold rootPath
        \<lparr>answer_bottomNav = Inr b, answer_storageType = Inr st,
         answer_navigationSetup = Inr n, answer_stateManagement = Inr ''Context API''\<rparr>
        (constructor (empty_project rootPath)))))
        (path_join rootPath ''src/context/providers/ExampleProvider.tsx'')
        = Some (Text ExampleProvider_tsx)"
    unfolding scaffold_fs using assms by (rule context_run)
  have initial: "value exampleSlice_initialState = number_of_int 0"
    "value useExampleStore_initial = number_of_int 0"
    "ExampleProvider_initial = number_of_int 0"
    by (simp_all add: exampleSlice_initialState_def useExampleStore_initial_def
        ExampleProvider_initial_def)
  have up: "\<forall>v. - (2 ^ 53) \<le> v \<and> v < 2 ^ 53 \<longrightarrow>
          value (exampleSlice_increment \<lparr>value = number_of_int v\<rparr>) = number_of_int (v + 1)"
    "\<forall>v. - (2 ^ 53) \<le> v \<and> v < 2 ^ 53 \<longrightarrow>
          value (useExampleStore_increment \<lparr>value = number_of_int v\<rparr>) = number_of_int (v + 1)"
    "\<forall>v. - (2 ^ 53) \<le> v \<and> v < 2 ^ 53 \<longrightarrow>
          ExampleProvider_increment (number_of_int v) = number_of_int (v + 1)"
    unfolding exampleSlice_increment_def useExampleStore_increment_def ExampleProvider_increment_def
    using add_one by simp_all
  have down: "\<forall>v. - (2 ^ 53) < v \<and> v \<le> 2 ^ 53 \<longrightarrow>
          value (exampleSlice_decrement \<lparr>value = number_of_int v\<rparr>) = number_of_int (v - 1)"
    "\<forall>v. - (2 ^ 53) < v \<and> v \<le> 2 ^ 53 \<longrightarrow>
          value (useExampleStore_decrement \<lparr>value = number_of_int v\<rparr>) = number_of_int (v - 1)"
    "\<forall>v. - (2 ^ 53) < v \<and> v \<le> 2 ^ 53 \<longrightarrow>
          ExampleProvider_decrement (number_of_int v) = number_of_int (v - 1)"
    unfolding exampleSlice_decrement_def useExampleStore_decrement_def ExampleProvider_decrement_def
    using sub_one by simp_all
  from redux two zustand ctx counter_statements initial up down show ?thesis
    by (intro conjI)
qed

text \<open>
  The theorem of claim C4 at an input: a project rooted at \<^verbatim>\<open>project\<close>, Redux Toolkit
  chosen and everything else declined; and a counter at 41.
\<close>

theorem redux_toolkit_witness:
  "files (fs (snd (scaffold [''project'']
        \<lparr>answer_bottomNav = Inr False, answer_storageType = Inr ''None'',
         answer_navigationSetup = Inr False, answer_stateManagement = Inr ''Redux Toolkit''\<rparr>
        (constructor (empty_project [''project''])))))
        [''project'', ''src'', ''store'', ''index.ts'']
     = Some (Text store_index_ts)
   \<and> files (fs (snd (scaffold [''project'']
        \<lparr>answer_bottomNav = Inr False, answer_storageType = Inr ''None'',
         answer_navigationSetup = Inr False, answer_stateManagement = Inr ''Redux Toolkit''\<rparr>
        (constructor (empty_project [''project''])))))
        [''project'', ''src'', ''store'', ''slices'', ''exampleSlice.ts'']
     = Some (Text exampleSlice_ts)
   \<and> value (exampleSlice_increment \<lparr>value = number_of_int 41\<rparr>) = number_of_int 42
   \<and> value (exampleSlice_decrement \<lparr>value = number_of_int 41\<rparr>) = number_of_int 40
   \<and> value (useExampleStore_increment \<lparr>value = number_of_int 41\<rparr>) = number_of_int 42
   \<and> ExampleProvider_decrement (number_of_int 41) = number_of_int 40"
proof -
  have st: "''None'' \<in> {''Async Storage'', ''React Native MMKV'', ''None''}" by simp
  note c4 = redux_toolkit_writes_two_files_and_counts_by_one [OF st, of "[''project'']" False False]
  have a: "files (fs (snd (scaffold [''project'']
        \<lparr>answer_bottomNav = Inr False, answer_storageType = Inr ''None'',
         answer_navigationSetup = Inr False, answer_stateManagement = Inr ''Redux Toolkit''\<rparr>
        (constructor (empty_project [''project''])))))
        [''project'', ''src'', ''store'', ''index.ts'']
     = Some (Text store_index_ts)"
    and b: "files (fs (snd (scaffold [''project'']
        \<lparr>answer_bottomNav = Inr False, answer_storageType = Inr ''None'',
         answer_navigationSetup = Inr False, answer_stateManagement = Inr ''Redux Toolkit''\<rparr>
        (constructor (empty_project [''project''])))))
        [''project'', ''src'', ''store'', ''slices'', ''exampleSlice.ts'']
     = Some (Text exampleSlice_ts)"
    using c4 by (simp_all add: Let_def path_join_def)
  have r: "- (2 ^ 53) \<le> (41::int) \<and> (41::int) < 2 ^ 53" "- (2 ^ 53) < (41::int) \<and> (41::int) \<le> 2 ^ 53"
    by simp_all
  have "value (exampleSlice_increment \<lparr>value = number_of_int 41\<rparr>) = number_of_int (41 + 1)"
    and "value (exampleSlice_decrement \<lparr>value = number_of_int 41\<rparr>) = number_of_int (41 - 1)"
    and "value (useExampleStore_increment \<lparr>value = number_of_int 41\<rparr>) = number_of_int (41 + 1)"
    and "ExampleProvider_decrement (number_of_int 41) = number_of_int (41 - 1)"
    using c4 r by blast+
  then have c: "value (exampleSlice_increment \<lparr>value = number_of_int 41\<rparr>) = number_of_int 42"
    and d: "value (exampleSlice_decrement \<lparr>value = number_of_int 41\<rparr>) = number_of_int 40"
    and e: "value (useExampleStore_increment \<lparr>value = number_of_int 41\<rparr>) = number_of_int 42"
    and g: "ExampleProvider_decrement (number_of_int 41) = number_of_int 40"
    by simp_all
  from a b c d e g show ?thesis by (intro conjI)
qed

subsection \<open>The generated navigation helper\<close>

text \<open>
  Claim C5, as the specification states it, fails on the code. The container is ready
  and shows the screen \<^verbatim>\<open>Login\<close>, the only one registered with its navigator;
  \<^verbatim>\<open>resetNavigationStack\<close> is called with the non-empty list of the routes
  \<^verbatim>\<open>Home\<close> and \<^verbatim>\<open>Profile\<close>. The navigator ignores the action, and the stack
  is what it was.
\<close>

theorem resetNavigationStack_ignores_unregistered_routes:
  "ready \<lparr>ready = True, routeNames = [''Login''],
          navigation = \<lparr>index = 0, routes = [\<lparr>name = ''Login'', params = None :: nat option\<rparr>]\<rparr>,
          console_errors = []\<rparr>
   \<and> [\<lparr>name = ''Home'', params = None :: nat option\<rparr>, \<lparr>name = ''Profile'', params = None\<rparr>] \<noteq> []
   \<and> routes (navigation (resetNavigationStack
        [\<lparr>name = ''Home'', params = None\<rparr>, \<lparr>name = ''Profile'', params = None\<rparr>]
        \<lparr>ready = True, routeNames = [''Login''],
         navigation = \<lparr>index = 0, routes = [\<lparr>name = ''Login'', params = None :: nat option\<rparr>]\<rparr>,
         console_errors = []\<rparr>))
     = [\<lparr>name = ''Login'', params = None\<rparr>]
   \<and> routes (navigation (resetNavigationStack
        [\<lparr>name = ''Home'', params = None\<rparr>, \<lparr>name = ''Profile'', params = None\<rparr>]
        \<lparr>ready = True, routeNames = [''Login''],
         navigation = \<lparr>index = 0, routes = [\<lparr>name = ''Login'', params = None :: nat option\<rparr>]\<rparr>,
         console_errors = []\<rparr>))
     \<noteq> [\<lparr>name = ''Home'', params = None\<rparr>, \<lparr>name = ''Profile'', params = None\<rparr>]
   \<and> index (navigation (resetNavigationStack
        [\<lparr>name = ''Home'', params = None\<rparr>, \<lparr>name = ''Profile'', params = None\<rparr>]
        \<lparr>ready = True, routeNames = [''Login''],
         navigation = \<lparr>index = 0, routes = [\<lparr>name = ''Login'', params = None :: nat option\<rparr>]\<rparr>,
         console_errors = []\<rparr>))
     \<noteq> 1"
  by (simp add: resetNavigationStack_def reset_def)

text \<open>
  Claim C5, amended: when the navigation container is ready,
  \<^verbatim>\<open>resetNavigationStack\<close> called with a non-empty list of routes whose names are
  all registered with the navigator replaces the whole navigation stack by that list and
  sets the active index to the length of the list minus one, the position of its last
  element; nothing is logged. With three routes the index is 2.
\<close>

theorem resetNavigationStack_replaces_stack:
  assumes "ready navigationRef" and "rs \<noteq> []"
    and "list_all (\<lambda>r. name r \<in> set (routeNames navigationRef)) rs"
  shows "routes (navigation (resetNavigationStack rs navigationRef)) = rs
       \<and> index (navigation (resetNavigationStack rs navigationRef)) = int (length rs) - 1
       \<and> 0 \<le> index (navigation (resetNavigationStack rs navigationRef))
       \<and> rs ! nat (index (navigation (resetNavigationStack rs navigationRef))) = last rs
       \<and> console_errors (resetNavigationStack rs navigationRef) = console_errors navigationRef
       \<and> ''navigationRef.reset({'' \<in> set (statements generateNavigationRefContent)
       \<and> ''index: routes.length - 1,'' \<in> set (statements generateNavigationRefContent)"
proof -
  have l: "0 < length rs" using assms(2) by simp
  have registered: "\<not> list_ex (\<lambda>r. name r \<notin> set (routeNames navigationRef)) rs"
    using assms(3) by (simp add: list_all_iff list_ex_iff)
  have "nat (int (length rs) - 1) = length rs - 1" by simp
  then have "routes (navigation (resetNavigationStack rs navigationRef)) = rs
       \<and> index (navigation (resetNavigationStack rs navigationRef)) = int (length rs) - 1
       \<and> 0 \<le> index (navigation (resetNavigationStack rs navigationRef))
       \<and> rs ! nat (index (navigation (resetNavigationStack rs navigationRef))) = last rs
       \<and> console_errors (resetNavigationStack rs navigationRef) = console_errors navigationRef"
    using assms(1,2) l registered by (simp add: resetNavigationStack_def reset_def last_conv_nth)
  with reset_statements(2,3) show ?thesis by blast
qed

text \<open>
  The theorem of claim C5 at a list of three registered routes: the active index is 2.
\<close>

theorem resetNavigationStack_three_routes:
  "index (navigation (resetNavigationStack
      [\<lparr>name = ''Home'', params = None\<rparr>, \<lparr>name = ''List'', params = None\<rparr>,
       \<lparr>name = ''Detail'', params = Some (7::nat)\<rparr>]
      \<lparr>ready = True, routeNames = [''Login'', ''Home'', ''List'', ''Detail''],
       navigation = \<lparr>index = 0, routes = [\<lparr>name = ''Login'', params = None\<rparr>]\<rparr>,
       console_errors = []\<rparr>)) = 2
   \<and> routes (navigation (resetNavigationStack
      [\<lparr>name = ''Home'', params = None\<rparr>, \<lparr>name = ''List'', params = None\<rparr>,
       \<lparr>name = ''Detail'', params = Some (7::nat)\<rparr>]
      \<lparr>ready = True, routeNames = [''Login'', ''Home'', ''List'', ''Detail''],
       navigation = \<lparr>index = 0, routes = [\<lparr>name = ''Login'', params = None\<rparr>]\<rparr>,
       console_errors = []\<rparr>)) =
      [\<lparr>name = ''Home'', params = None\<rparr>, \<lparr>name = ''List'', params = None\<rparr>,
       \<lparr>name = ''Detail'', params = Some (7::nat)\<rparr>]"
  using resetNavigationStack_replaces_stack [of
      "\<lparr>ready = True, routeNames = [''Login'', ''Home'', ''List'', ''Detail''],
       navigation = \<lparr>index = 0, routes = [\<lparr>name = ''Login'', params = None\<rparr>]\<rparr>,
       console_errors = []\<rparr>"
      "[\<lparr>name = ''Home'', params = None\<rparr>, \<lparr>name = ''List'', params = None\<rparr>,
       \<lparr>name = ''Detail'', params = Some (7::nat)\<rparr>]"]
  by simp


subsection \<open>Prompts come before the filesystem\<close>

text \<open>
  Claim C6: when one of the four prompts fails, the run ends with the filesystem as it
  was and without having issued a single filesystem call: no directory is created and no
  file is written before all four answers are in. The console shows the banner and the
  error.
\<close>

theorem no_filesystem_call_before_answers:
  assumes "isl (answer_bottomNav ui) \<or> isl (answer_storageType ui)
         \<or> isl (answer_navigationSetup ui) \<or> isl (answer_stateManagement ui)"
  shows "fs (snd (scaffold rootPath ui s)) = fs s
       \<and> calls (snd (scaffold rootPath ui s)) = calls s
       \<and> (\<exists>e. console (snd (scaffold rootPath ui s)) = console s @
               [Log BoldMagenta (rocket @ '' React Native Maker (Project Scaffolder)''),
                LogError Red (cross_mark @ '' Scaffolding failed:'') e])"
proof -
  from scaffold_unanswered [OF assms, of rootPath s] obtain e cfg where
    "snd (scaffold rootPath ui s) =
           s\<lparr>config := cfg,
             console := console s @
               [Log BoldMagenta (rocket @ '' React Native Maker (Project Scaffolder)''),
                LogError Red (cross_mark @ '' Scaffolding failed:'') e]\<rparr>"
    by blast
  then show ?thesis by simp
qed


text \<open>
  The theorem of claim C6 at an input: three questions answered with yes or a choice, the
  fourth prompt rejected.
\<close>

theorem no_filesystem_call_before_answers_witness:
  "fs (snd (scaffold [''project'']
       \<lparr>answer_bottomNav = Inr True, answer_storageType = Inr ''Async Storage'',
        answer_navigationSetup = Inr True, answer_stateManagement = Inl InputUnavailable\<rparr>
       (constructor (empty_project [''project''])))) = empty_project [''project'']
   \<and> calls (snd (scaffold [''project'']
       \<lparr>answer_bottomNav = Inr True, answer_storageType = Inr ''Async Storage'',
        answer_navigationSetup = Inr True, answer_stateManagement = Inl InputUnavailable\<rparr>
       (constructor (empty_project [''project''])))) = []"
  using no_filesystem_call_before_answers [of
       "\<lparr>answer_bottomNav = Inr True, answer_storageType = Inr ''Async Storage'',
        answer_navigationSetup = Inr True, answer_stateManagement = Inl InputUnavailable\<rparr>"
       "[''project'']" "constructor (empty_project [''project''])"]
  by (simp add: constructor_def)


subsection \<open>Errors\<close>

text \<open>
  Claim C7: whatever happens in a run, the promise of \<^verbatim>\<open>scaffold\<close> is fulfilled and
  the process ends with status 0. When the statements of the \<^verbatim>\<open>try\<close> block throw,
  the state is left as it was at that moment, but for one more console line, the error
  banner with the error. Nothing is undone: every directory and file that existed before
  the run exists after it, and what every filesystem call but the last has created
  (the last is the one that may have failed) is still present at the end.
\<close>

theorem errors_are_caught_and_nothing_is_undone:
  "fst (scaffold rootPath ui (constructor f)) = Fulfilled
   \<and> fst (cli rootPath ui f) = 0
   \<and> snd (cli rootPath ui f) = snd (scaffold rootPath ui (constructor f))
   \<and> (\<forall>e s'. scaffold_try rootPath ui
              (snd (console_log BoldMagenta (rocket @ '' React Native Maker (Project Scaffolder)'')
                     (constructor f))) = (Some e, s')
          \<longrightarrow> snd (scaffold rootPath ui (constructor f)) =
                s'\<lparr>console := console s' @
                     [LogError Red (cross_mark @ '' Scaffolding failed:'') e]\<rparr>)
   \<and> dirs f \<subseteq> dirs (fs (snd (scaffold rootPath ui (constructor f))))
   \<and> dom (files f) \<subseteq> dom (files (fs (snd (scaffold rootPath ui (constructor f)))))
   \<and> list_all (\<lambda>c. present c (fs (snd (scaffold rootPath ui (constructor f)))))
        (butlast (calls (snd (scaffold rootPath ui (constructor f)))))"
proof -
  have a: "fst (scaffold rootPath ui (constructor f)) = Fulfilled"
    by (rule scaffold_fulfilled)
  then obtain s' where "scaffold rootPath ui (constructor f) = (Fulfilled, s')"
    by (cases "scaffold rootPath ui (constructor f)") simp
  then have b: "fst (cli rootPath ui f) = 0"
    and c: "snd (cli rootPath ui f) = snd (scaffold rootPath ui (constructor f))"
    by (simp_all add: cli_def)
  have d: "\<forall>e s'. scaffold_try rootPath ui
              (snd (console_log BoldMagenta (rocket @ '' React Native Maker (Project Scaffolder)'')
                     (constructor f))) = (Some e, s')
          \<longrightarrow> snd (scaffold rootPath ui (constructor f)) =
                s'\<lparr>console := console s' @
                     [LogError Red (cross_mark @ '' Scaffolding failed:'') e]\<rparr>"
    by (simp add: scaffold_def print_def)
  have e: "dirs f \<subseteq> dirs (fs (snd (scaffold rootPath ui (constructor f))))
   \<and> dom (files f) \<subseteq> dom (files (fs (snd (scaffold rootPath ui (constructor f)))))
   \<and> list_all (\<lambda>c. present c (fs (snd (scaffold rootPath ui (constructor f)))))
        (butlast (calls (snd (scaffold rootPath ui (constructor f)))))"
  proof -
    consider (answered) b st n sm where "answer_bottomNav ui = Inr b" "answer_storageType ui = Inr st"
        "answer_navigationSetup ui = Inr n" "answer_stateManagement ui = Inr sm"
      | (unanswered) "isl (answer_bottomNav ui) \<or> isl (answer_storageType ui)
           \<or> isl (answer_navigationSetup ui) \<or> isl (answer_stateManagement ui)"
      using answers_cases [of ui] by blast
    then show ?thesis
    proof cases
      case answered
      let ?cfg = "\<lparr>bottomNavigation = b, storageType = Some st,
                                navigationSetup = n, stateManagement = Some sm\<rparr>"
      have "fs (snd (scaffold rootPath ui (constructor f))) = fs_run (plan rootPath ?cfg) f"
        and "calls (snd (scaffold rootPath ui (constructor f))) = issued (plan rootPath ?cfg) f"
        using scaffold_answered [OF answered, of rootPath "constructor f"]
        by (simp_all add: constructor_def)
      then show ?thesis
        using fs_run_dirs [of f "plan rootPath ?cfg"] fs_run_dom [of f "plan rootPath ?cfg"]
          issued_present [of "plan rootPath ?cfg" f]
        by simp
    next
      case unanswered
      from scaffold_unanswered [OF unanswered, of rootPath "constructor f"]
      show ?thesis by (auto simp: constructor_def)
    qed
  qed
  from a b c d e show ?thesis by blast
qed


text \<open>
  The theorem of claim C7 at an input: a file stands where the directory
  \<^verbatim>\<open>src/store\<close> is to be created. The run ends with status 0, the last console line
  is the error banner with the filesystem's error, the directories created before the
  failure are kept, and those after it are never created.
\<close>

theorem errors_are_caught_witness:
  "fst (cli [''project'']
       \<lparr>answer_bottomNav = Inr False, answer_storageType = Inr ''None'',
        answer_navigationSetup = Inr False, answer_stateManagement = Inr ''None''\<rparr>
       \<lparr>dirs = set (prefixes [''project'']),
        files = [[''project'', ''src'', ''store''] \<mapsto> Text ''notes'']\<rparr>) = 0
   \<and> last (console (snd (cli [''project'']
       \<lparr>answer_bottomNav = Inr False, answer_storageType = Inr ''None'',
        answer_navigationSetup = Inr False, answer_stateManagement = Inr ''None''\<rparr>
       \<lparr>dirs = set (prefixes [''project'']),
        files = [[''project'', ''src'', ''store''] \<mapsto> Text ''notes'']\<rparr>)))
     = LogError Red (cross_mark @ '' Scaffolding failed:'')
         (FilesystemError EEXIST [''project'', ''src'', ''store''])
   \<and> [''project'', ''src'', ''components'', ''forms'']
       \<in> dirs (fs (snd (cli [''project'']
       \<lparr>answer_bottomNav = Inr False, answer_storageType = Inr ''None'',
        answer_navigationSetup = Inr False, answer_stateManagement = Inr ''None''\<rparr>
       \<lparr>dirs = set (prefixes [''project'']),
        files = [[''project'', ''src'', ''store''] \<mapsto> Text ''notes'']\<rparr>)))
   \<and> [''project'', ''src'', ''constants'']
       \<notin> dirs (fs (snd (cli [''project'']
       \<lparr>answer_bottomNav = Inr False, answer_storageType = Inr ''None'',
        answer_navigationSetup = Inr False, answer_stateManagement = Inr ''None''\<rparr>
       \<lparr>dirs = set (prefixes [''project'']),
        files = [[''project'', ''src'', ''store''] \<mapsto> Text ''notes'']\<rparr>)))"
proof -
  let ?ui = "\<lparr>answer_bottomNav = Inr False, answer_storageType = Inr ''None'',
        answer_navigationSetup = Inr False, answer_stateManagement = Inr ''None''\<rparr>"
  let ?f = "\<lparr>dirs = set (prefixes [''project'']),
        files = [[''project'', ''src'', ''store''] \<mapsto> Text ''notes'']\<rparr>"
  let ?cfg = "\<lparr>bottomNavigation = False, storageType = Some ''None'',
              navigationSetup = False, stateManagement = Some ''None''\<rparr>"
  let ?s0 = "snd (console_log BoldMagenta (rocket @ '' React Native Maker (Project Scaffolder)'')
                    (constructor ?f))"
  note caught = errors_are_caught_and_nothing_is_undone [of "[''project'']" ?ui ?f]
  have tr: "scaffold_try [''project''] ?ui ?s0 = run (plan [''project''] ?cfg) (?s0\<lparr>config := ?cfg\<rparr>)"
    by (rule scaffold_try_answered) simp_all
  have "fst (scaffold_try [''project''] ?ui ?s0) = outcome (plan [''project''] ?cfg) ?f"
    unfolding tr run_outcome by (simp add: console_log_def print_def constructor_def)
  then have "fst (scaffold_try [''project''] ?ui ?s0)
           = Some (FilesystemError EEXIST [''project'', ''src'', ''store''])"
    by (simp only: blocked_outcome)
  then obtain s' where "scaffold_try [''project''] ?ui ?s0
           = (Some (FilesystemError EEXIST [''project'', ''src'', ''store'']), s')"
    by (cases "scaffold_try [''project''] ?ui ?s0") simp
  with caught have "snd (cli [''project''] ?ui ?f) =
      s'\<lparr>console := console s' @
        [LogError Red (cross_mark @ '' Scaffolding failed:'')
           (FilesystemError EEXIST [''project'', ''src'', ''store''])]\<rparr>"
    by simp
  then have a: "last (console (snd (cli [''project''] ?ui ?f)))
     = LogError Red (cross_mark @ '' Scaffolding failed:'')
         (FilesystemError EEXIST [''project'', ''src'', ''store''])"
    by simp
  have fs: "fs (snd (cli [''project''] ?ui ?f)) = fs_run (plan [''project''] ?cfg) ?f"
    using caught by (simp add: scaffold_fs)
  have b: "[''project'', ''src'', ''components'', ''forms''] \<in> dirs (fs (snd (cli [''project''] ?ui ?f)))"
    and c: "[''project'', ''src'', ''constants''] \<notin> dirs (fs (snd (cli [''project''] ?ui ?f)))"
    unfolding fs by (rule blocked_fs(1), rule blocked_fs(2))
  from caught a b c show ?thesis by simp
qed

subsection \<open>Running twice\<close>

text \<open>
  Claim C8: for every root path, every answer to each of the four questions (a rejected
  prompt too) and every filesystem to start from, a second run, by a new scaffolder with
  the same answers on the filesystem that the first run left, leaves that filesystem as
  it is: the same directories and the same files with the same contents.
\<close>

theorem second_run_changes_nothing:
  "fs (snd (scaffold rootPath ui (constructor (fs (snd (scaffold rootPath ui (constructor f)))))))
   = fs (snd (scaffold rootPath ui (constructor f)))"
proof -
  consider (answered) b st n sm where "answer_bottomNav ui = Inr b" "answer_storageType ui = Inr st"
      "answer_navigationSetup ui = Inr n" "answer_stateManagement ui = Inr sm"
    | (unanswered) "isl (answer_bottomNav ui) \<or> isl (answer_storageType ui)
         \<or> isl (answer_navigationSetup ui) \<or> isl (answer_stateManagement ui)"
    using answers_cases [of ui] by blast
  then show ?thesis
  proof cases
    case answered
    let ?cfg = "\<lparr>bottomNavigation = b, storageType = Some st,
                              navigationSetup = n, stateManagement = Some sm\<rparr>"
    have run: "fs (snd (scaffold rootPath ui (constructor g))) = fs_run (plan rootPath ?cfg) g" for g
      using scaffold_answered(1) [OF answered, of rootPath "constructor g"]
      by (simp add: constructor_def)
    show ?thesis
      unfolding run using consistent_plan by (rule fs_run_idempotent)
  next
    case unanswered
    have "fs (snd (scaffold rootPath ui (constructor g))) = g" for g
      using scaffold_unanswered [OF unanswered, of rootPath "constructor g"]
      by (auto simp: constructor_def)
    then show ?thesis by simp
  qed
qed


subsection \<open>Parent directories\<close>

text \<open>
  Claim C9: in every run, whatever the configuration, the answers and the filesystem it
  starts from, the parent directory of each file exists at the moment the file is
  written, and it is there because a \<^verbatim>\<open>mkdirp\<close> call of the same run has ensured it
  before, as its target or as an ancestor of its target. The calls of the run are all
  that changed the filesystem, and each call that succeeded, the directory creations
  among them, succeeds again at the end of the run and changes nothing. This holds for
  the bottom-tab navigator file too, whose own generator creates no parent:
  \<^verbatim>\<open>ensureNavigationDirectory\<close> has run before it, and without that the
  generator fails in an empty project, for want of the directory.
\<close>

theorem parents_created_before_files:
  "parents_exist (calls (snd (scaffold rootPath ui (constructor f)))) f
   \<and> parents_created_first {} (calls (snd (scaffold rootPath ui (constructor f))))
   \<and> replay (calls (snd (scaffold rootPath ui (constructor f)))) f
       = fs (snd (scaffold rootPath ui (constructor f)))
   \<and> list_all (\<lambda>c. apply_call c (fs (snd (scaffold rootPath ui (constructor f))))
                      = Inr (fs (snd (scaffold rootPath ui (constructor f)))))
        (butlast (calls (snd (scaffold rootPath ui (constructor f)))))
   \<and> fst (setupBottomNavigation [''project''] (constructor (empty_project [''project''])))
       = Some (FilesystemError ENOENT
                 [''project'', ''src'', ''navigation'', ''BottomTabNavigator.tsx''])"
proof -
  have bottom: "fst (setupBottomNavigation [''project''] (constructor (empty_project [''project''])))
       = Some (FilesystemError ENOENT
                 [''project'', ''src'', ''navigation'', ''BottomTabNavigator.tsx''])"
    unfolding setupBottomNavigation_run run_outcome
    by (simp add: constructor_def empty_project_def bottomNavDirectories_def bottomNavFiles_def
        directory_effects_def path_join_def mkdirp_def write_file_def dirname_def)
  consider (answered) b st n sm where "answer_bottomNav ui = Inr b" "answer_storageType ui = Inr st"
      "answer_navigationSetup ui = Inr n" "answer_stateManagement ui = Inr sm"
    | (unanswered) "isl (answer_bottomNav ui) \<or> isl (answer_storageType ui)
         \<or> isl (answer_navigationSetup ui) \<or> isl (answer_stateManagement ui)"
    using answers_cases [of ui] by blast
  then have "parents_exist (calls (snd (scaffold rootPath ui (constructor f)))) f
   \<and> parents_created_first {} (calls (snd (scaffold rootPath ui (constructor f))))
   \<and> replay (calls (snd (scaffold rootPath ui (constructor f)))) f
       = fs (snd (scaffold rootPath ui (constructor f)))
   \<and> list_all (\<lambda>c. apply_call c (fs (snd (scaffold rootPath ui (constructor f))))
                      = Inr (fs (snd (scaffold rootPath ui (constructor f)))))
        (butlast (calls (snd (scaffold rootPath ui (constructor f)))))"
  proof cases
    case answered
    let ?cfg = "\<lparr>bottomNavigation = b, storageType = Some st,
                              navigationSetup = n, stateManagement = Some sm\<rparr>"
    have c: "calls (snd (scaffold rootPath ui (constructor f))) = issued (plan rootPath ?cfg) f"
      and g: "fs (snd (scaffold rootPath ui (constructor f))) = fs_run (plan rootPath ?cfg) f"
      using scaffold_answered [OF answered, of rootPath "constructor f"]
      by (simp_all add: constructor_def)
    have "parents_exist (issued (plan rootPath ?cfg) f) f"
      using pcf_plan by (rule parents_exist_issued) simp
    moreover have "parents_created_first {} (issued (plan rootPath ?cfg) f)"
      using issued_prefix pcf_plan by (rule pcf_prefix)
    moreover have "replay (issued (plan rootPath ?cfg) f) f = fs_run (plan rootPath ?cfg) f"
      by (rule replay_issued)
    moreover have "list_all (\<lambda>c. apply_call c (fs_run (plan rootPath ?cfg) f)
                      = Inr (fs_run (plan rootPath ?cfg) f))
        (butlast (issued (plan rootPath ?cfg) f))"
      using consistent_plan by (rule issued_stable)
    ultimately show ?thesis unfolding c g by (intro conjI)
  next
    case unanswered
    from scaffold_unanswered [OF unanswered, of rootPath "constructor f"]
    have "calls (snd (scaffold rootPath ui (constructor f))) = []"
      and "fs (snd (scaffold rootPath ui (constructor f))) = f"
      by (auto simp: constructor_def)
    then show ?thesis by simp
  qed
  with bottom show ?thesis by (intro conjI) simp_all
qed


subsection \<open>Choices that the tables do not list\<close>

text \<open>
  Claim C10: a storage choice that the prompt offers and that is neither Async Storage
  nor React Native MMKV is a truthy string, so that the run enters
  \<^verbatim>\<open>setupStorage\<close>; there the lookup falls back to the empty list, and the
  generator leaves the state as it is (no filesystem call, no file, no console line)
  and raises no error, whatever the rest of the configuration is. The same holds of
  \<^verbatim>\<open>setupStateManagement\<close> for a state-management choice that the prompt offers
  and that is none of Redux Toolkit, Zustand and Context API. \<^verbatim>\<open>None\<close> is such a
  choice of both prompts. The lookup falls back for every other key as well that is
  not the name of a property of \<^verbatim>\<open>Object.prototype\<close>.
\<close>

theorem unlisted_choice_writes_nothing:
  "(st \<in> set storageType_choices \<and> st \<notin> {''Async Storage'', ''React Native MMKV''}
      \<and> storageType (config s) = Some st
    \<longrightarrow> truthy (storageType (config s)) \<and> setupStorage rootPath s = (None, s))
   \<and> (sm \<in> set stateManagement_choices \<and> sm \<notin> {''Redux Toolkit'', ''Zustand'', ''Context API''}
      \<and> stateManagement (config s) = Some sm
    \<longrightarrow> truthy (stateManagement (config s)) \<and> setupStateManagement rootPath s = (None, s))
   \<and> (property_key (storageType (config s))
         \<notin> {''Async Storage'', ''React Native MMKV''} \<union> set Object_prototype
    \<longrightarrow> setupStorage rootPath s = (None, s))
   \<and> (property_key (stateManagement (config s))
         \<notin> {''Redux Toolkit'', ''Zustand'', ''Context API''} \<union> set Object_prototype
    \<longrightarrow> setupStateManagement rootPath s = (None, s))
   \<and> ''None'' \<in> set storageType_choices - {''Async Storage'', ''React Native MMKV''}
   \<and> ''None'' \<in> set stateManagement_choices - {''Redux Toolkit'', ''Zustand'', ''Context API''}"
proof -
  have storage: "setupStorage rootPath s = (None, s)"
    if "property_key (storageType (config s))
         \<notin> {''Async Storage'', ''React Native MMKV''} \<union> set Object_prototype"
    using that by (simp add: setupStorage_def property_def storageFiles_def forEach_def)
  have state: "setupStateManagement rootPath s = (None, s)"
    if "property_key (stateManagement (config s))
         \<notin> {''Redux Toolkit'', ''Zustand'', ''Context API''} \<union> set Object_prototype"
    using that
    by (simp add: setupStateManagement_def property_def stateManagementFiles_def forEach_def)
  have a: "truthy (storageType (config s)) \<and> setupStorage rootPath s = (None, s)"
    if "st \<in> set storageType_choices" "st \<notin> {''Async Storage'', ''React Native MMKV''}"
      "storageType (config s) = Some st"
  proof -
    from that(1,2) have "st = ''None''" by (simp add: storageType_choices_def)
    with that(3) show ?thesis using storage by (simp add: Object_prototype_def)
  qed
  have b: "truthy (stateManagement (config s)) \<and> setupStateManagement rootPath s = (None, s)"
    if "sm \<in> set stateManagement_choices" "sm \<notin> {''Redux Toolkit'', ''Zustand'', ''Context API''}"
      "stateManagement (config s) = Some sm"
  proof -
    from that(1,2) have "sm = ''None''" by (simp add: stateManagement_choices_def)
    with that(3) show ?thesis using state by (simp add: Object_prototype_def)
  qed
  have c: "''None'' \<in> set storageType_choices - {''Async Storage'', ''React Native MMKV''}"
    "''None'' \<in> set stateManagement_choices - {''Redux Toolkit'', ''Zustand'', ''Context API''}"
    by (simp_all add: storageType_choices_def stateManagement_choices_def)
  from a b c storage state show ?thesis by blast
qed

text \<open>
  The theorem of claim C10 at two configurations: \<^verbatim>\<open>None\<close> for storage with Redux
  Toolkit for state management, and \<^verbatim>\<open>None\<close> for state management with Async
  Storage.
\<close>

theorem unlisted_choice_writes_nothing_witness:
  "setupStorage [''project'']
     ((constructor (empty_project [''project'']))
        \<lparr>config := \<lparr>bottomNavigation = True, storageType = Some ''None'',
                     navigationSetup = True, stateManagement = Some ''Redux Toolkit''\<rparr>\<rparr>)
   = (None, (constructor (empty_project [''project'']))
        \<lparr>config := \<lparr>bottomNavigation = True, storageType = Some ''None'',
                     navigationSetup = True, stateManagement = Some ''Redux Toolkit''\<rparr>\<rparr>)
   \<and> setupStateManagement [''project'']
     ((constructor (empty_project [''project'']))
        \<lparr>config := \<lparr>bottomNavigation = False, storageType = Some ''Async Storage'',
                     navigationSetup = False, stateManagement = Some ''None''\<rparr>\<rparr>)
   = (None, (constructor (empty_project [''project'']))
        \<lparr>config := \<lparr>bottomNavigation = False, storageType = Some ''Async Storage'',
                     navigationSetup = False, stateManagement = Some ''None''\<rparr>\<rparr>)"
  using unlisted_choice_writes_nothing [of "''None''"
     "(constructor (empty_project [''project'']))
        \<lparr>config := \<lparr>bottomNavigation = True, storageType = Some ''None'',
                     navigationSetup = True, stateManagement = Some ''Redux Toolkit''\<rparr>\<rparr>"
     "[''project'']" "''None''"]
    unlisted_choice_writes_nothing [of "''None''"
     "(constructor (empty_project [''project'']))
        \<lparr>config := \<lparr>bottomNavigation = False, storageType = Some ''Async Storage'',
                     navigationSetup = False, stateManagement = Some ''None''\<rparr>\<rparr>"
     "[''project'']" "''None''"]
  by (simp add: storageType_choices_def stateManagement_choices_def)

text \<open>
  A key that names a property of \<^verbatim>\<open>Object.prototype\<close> is outside the theorem, and
  outside what the prompts can be answered with: there the lookup finds the inherited
  property, a function, which is truthy and has no \<^verbatim>\<open>forEach\<close>.
\<close>

lemma inherited_property_has_no_forEach:
  "fst (setupStorage [''project'']
     ((constructor (empty_project [''project'']))
        \<lparr>config := \<lparr>bottomNavigation = False, storageType = Some ''constructor'',
                     navigationSetup = False, stateManagement = Some ''None''\<rparr>\<rparr>))
   = Some (TypeError ''files.forEach is not a function'')
   \<and> ''constructor'' \<notin> set storageType_choices"
  by (simp add: setupStorage_def property_def storageFiles_def Object_prototype_def throw_def
      constructor_def storageType_choices_def)

end
